theory Spec2Isabelle
  imports Main
begin

section \<open>Python values\<close>

text \<open>
  A Python \<open>str\<close> is modelled as a \<open>string\<close>: a list of 8-bit characters, read as
  the code points U+0000 to U+00FF. The character tables below (\<open>isspace\<close>, case mapping,
  \<open>\d\<close>) are the ones of Python 3 on that range.
\<close>

abbreviation code_point :: "char \<Rightarrow> nat" where
  "code_point \<equiv> of_char"

definition isspace :: "char \<Rightarrow> bool" where
  "isspace c = (let n = code_point c in
     (9 \<le> n \<and> n \<le> 13) \<or> (28 \<le> n \<and> n \<le> 32) \<or> n = 133 \<or> n = 160)"

definition isascii :: "string \<Rightarrow> bool" where
  "isascii s = list_all (\<lambda>c. code_point c < 128) s"

text \<open>\<open>str.strip()\<close>: whitespace removed at both ends.\<close>

definition str_strip :: "string \<Rightarrow> string" where
  "str_strip s = rev (dropWhile isspace (rev (dropWhile isspace s)))"

text \<open>\<open>str.lower()\<close>: A to Z, and the Latin-1 capitals U+00C0 to U+00DE without U+00D7.\<close>

definition lower_char :: "char \<Rightarrow> char" where
  "lower_char c = (let n = code_point c in
     if (65 \<le> n \<and> n \<le> 90) \<or> (192 \<le> n \<and> n \<le> 222 \<and> n \<noteq> 215)
     then char_of (n + 32) else c)"

definition str_lower :: "string \<Rightarrow> string" where
  "str_lower s = map lower_char s"

text \<open>
  \<open>str.upper()\<close>: a to z and U+00E0 to U+00FE without U+00F7 move down by 32; U+00DF
  becomes \<open>SS\<close>. The upper case of U+00B5 and of U+00FF lies beyond U+00FF (U+039C,
  U+0178); the two characters stand for their images, which are no ASCII letters either.
\<close>

definition upper_char :: "char \<Rightarrow> string" where
  "upper_char c = (let n = code_point c in
     if (97 \<le> n \<and> n \<le> 122) \<or> (224 \<le> n \<and> n \<le> 254 \<and> n \<noteq> 247)
     then [char_of (n - 32)]
     else if n = 223 then ''SS'' else [c])"

definition str_upper :: "string \<Rightarrow> string" where
  "str_upper s = concat (map upper_char s)"

text \<open>Decimal text of an \<open>int\<close>, as \<open>str(n)\<close> gives it.\<close>

fun digits :: "nat \<Rightarrow> string" where
  "digits n = (if n < 10 then [char_of (48 + n)]
               else digits (n div 10) @ [char_of (48 + n mod 10)])"

declare digits.simps [simp del]

definition str_int :: "int \<Rightarrow> string" where
  "str_int i = (if i < 0 then CHR ''-'' # digits (nat (- i)) else digits (nat i))"

text \<open>
  The values \<open>json.loads\<close> and \<open>request.get_json\<close> produce. A \<open>dict\<close> is an association
  list read with \<open>map_of\<close>. Numbers are the integers: a \<open>float\<close> is not modelled.
\<close>

datatype json =
    JNull
  | JBool bool
  | JInt int
  | JStr string
  | JList "json list"
  | JDict "(string \<times> json) list"

text \<open>The exceptions that occur, by class.\<close>

datatype py_error =
    TypeError | AttributeError | ValueError | KeyError | LookupError | ParseError | RuntimeError

text \<open>Truth value of an object (\<open>if x\<close>, \<open>x and ...\<close>, \<open>x or ...\<close>).\<close>

fun truthy :: "json \<Rightarrow> bool" where
  "truthy JNull = False"
| "truthy (JBool b) = b"
| "truthy (JInt n) = (n \<noteq> 0)"
| "truthy (JStr s) = (s \<noteq> [])"
| "truthy (JList xs) = (xs \<noteq> [])"
| "truthy (JDict kvs) = (kvs \<noteq> [])"

text \<open>\<open>d.get(key, default)\<close>.\<close>

definition dict_get :: "(string \<times> json) list \<Rightarrow> string \<Rightarrow> json \<Rightarrow> json" where
  "dict_get d key dflt = (case map_of d key of None \<Rightarrow> dflt | Some v \<Rightarrow> v)"

text \<open>
  \<open>str(x)\<close>, also what an f-string inserts for \<open>{x}\<close>. The text of a list starts with
  \<open>[\<close> and that of a dict with \<open>{\<close>; it is not modelled further, hence \<open>None\<close>.
\<close>

fun py_str :: "json \<Rightarrow> string option" where
  "py_str JNull = Some ''None''"
| "py_str (JBool b) = Some (if b then ''True'' else ''False'')"
| "py_str (JInt n) = Some (str_int n)"
| "py_str (JStr s) = Some s"
| "py_str (JList xs) = None"
| "py_str (JDict kvs) = None"

text \<open>Sequencing of computations that may raise: \<open>Inl\<close> is the exception.\<close>

definition and_then :: "'e + 'a \<Rightarrow> ('a \<Rightarrow> 'e + 'b) \<Rightarrow> 'e + 'b" where
  "and_then r f = (case r of Inl e \<Rightarrow> Inl e | Inr x \<Rightarrow> f x)"

section \<open>Regular expressions\<close>

text \<open>
  The two patterns of the validators use character classes, concatenation and
  repetition only. They are matched by derivatives.
\<close>

datatype rx =
    RNone
  | REps
  | RClass "char \<Rightarrow> bool"
  | RSeq rx rx
  | RAlt rx rx
  | RStar rx

primrec nullable :: "rx \<Rightarrow> bool" where
  "nullable RNone = False"
| "nullable REps = True"
| "nullable (RClass p) = False"
| "nullable (RSeq r s) = (nullable r \<and> nullable s)"
| "nullable (RAlt r s) = (nullable r \<or> nullable s)"
| "nullable (RStar r) = True"

primrec deriv :: "char \<Rightarrow> rx \<Rightarrow> rx" where
  "deriv c RNone = RNone"
| "deriv c REps = RNone"
| "deriv c (RClass p) = (if p c then REps else RNone)"
| "deriv c (RSeq r s) =
     (if nullable r then RAlt (RSeq (deriv c r) s) (deriv c s) else RSeq (deriv c r) s)"
| "deriv c (RAlt r s) = RAlt (deriv c r) (deriv c s)"
| "deriv c (RStar r) = RSeq (deriv c r) (RStar r)"

primrec fullmatch :: "rx \<Rightarrow> string \<Rightarrow> bool" where
  "fullmatch r [] = nullable r"
| "fullmatch r (c # cs) = fullmatch (deriv c r) cs"

text \<open>\<open>r+\<close>\<close>

definition RPlus :: "rx \<Rightarrow> rx" where
  "RPlus r = RSeq r (RStar r)"

text \<open>
  \<open>re.match\<close> of a pattern \<open>^r$\<close>: the whole text matches \<open>r\<close>, or the text ends in a
  newline and the text before that newline matches \<open>r\<close> (\<open>$\<close> also matches just before
  a final newline).
\<close>

definition re_match_anchored :: "rx \<Rightarrow> string \<Rightarrow> bool" where
  "re_match_anchored r s =
     (fullmatch r s \<or> (s \<noteq> [] \<and> last s = CHR 0x0A \<and> fullmatch r (butlast s)))"

text \<open>\<open>[^\s@]\<close>\<close>

definition not_space_at :: "char \<Rightarrow> bool" where
  "not_space_at c = (\<not> isspace c \<and> c \<noteq> CHR ''@'')"

text \<open>\<open>^[^\s@]+@[^\s@]+\.[^\s@]+$\<close>\<close>

definition email_re :: rx where
  "email_re =
     RSeq (RPlus (RClass not_space_at))
       (RSeq (RClass (\<lambda>c. c = CHR ''@''))
         (RSeq (RPlus (RClass not_space_at))
           (RSeq (RClass (\<lambda>c. c = CHR ''.'')) (RPlus (RClass not_space_at)))))"

text \<open>\<open>\d\<close>\<close>

definition isdigit :: "char \<Rightarrow> bool" where
  "isdigit c = (48 \<le> code_point c \<and> code_point c \<le> 57)"

text \<open>\<open>^\d{5}$\<close>\<close>

definition zip_re :: rx where
  "zip_re =
     RSeq (RClass isdigit) (RSeq (RClass isdigit) (RSeq (RClass isdigit)
       (RSeq (RClass isdigit) (RClass isdigit))))"

section \<open>Account code (backend/api/subscribe.py, api/subscribe.py)\<close>

text \<open>\<open>[a-z0-9._-]\<close>\<close>

definition code_char :: "char \<Rightarrow> bool" where
  "code_char c = (let n = code_point c in
     (97 \<le> n \<and> n \<le> 122) \<or> (48 \<le> n \<and> n \<le> 57)
     \<or> c = CHR ''.'' \<or> c = CHR ''_'' \<or> c = CHR ''-'')"

text \<open>\<open>re.sub(r"[^a-z0-9._-]", "-", s)\<close>\<close>

definition re_sub_unsafe :: "string \<Rightarrow> string" where
  "re_sub_unsafe s = map (\<lambda>c. if code_char c then c else CHR ''-'') s"

text \<open>The Flask backend's \<open>_account_code_from_email\<close>.\<close>

definition account_code_from_email :: "string \<Rightarrow> string" where
  "account_code_from_email email = (let safe = re_sub_unsafe (str_lower email) in take 50 safe)"

text \<open>The serverless function's \<open>_account_code_from_email\<close>.\<close>

definition account_code_from_email_serverless :: "string \<Rightarrow> string" where
  "account_code_from_email_serverless email =
     (let safe = re_sub_unsafe (str_lower email) in take 50 safe)"

text \<open>
  The derivation in the specification's words: lower case, every character outside
  \<open>[a-z0-9._-]\<close> replaced with \<open>-\<close>, truncated to 50 characters.
\<close>

definition spec_account_code :: "string \<Rightarrow> string" where
  "spec_account_code email =
     take 50 (map (\<lambda>c. if code_char (lower_char c) then lower_char c else CHR ''-'') email)"

section \<open>Validator (backend/utils/validators.py)\<close>

definition VALID_PLAN_CODES :: "string set" where
  "VALID_PLAN_CODES = set [''1399'', ''classic-monthly'', ''premium-monthly'',
     ''deluxe-monthly'', ''biweekly-delivery'', ''weekly-delivery'', ''roses-monthly'',
     ''tropical-monthly'', ''petsafe-monthly'', ''plants-monthly'']"

definition US_STATES :: "string set" where
  "US_STATES = set [
     ''AL'', ''AK'', ''AZ'', ''AR'', ''CA'', ''CO'', ''CT'', ''DE'', ''FL'', ''GA'',
     ''HI'', ''ID'', ''IL'', ''IN'', ''IA'', ''KS'', ''KY'', ''LA'', ''ME'', ''MD'',
     ''MA'', ''MI'', ''MN'', ''MS'', ''MO'', ''MT'', ''NE'', ''NV'', ''NH'', ''NJ'',
     ''NM'', ''NY'', ''NC'', ''ND'', ''OH'', ''OK'', ''OR'', ''PA'', ''RI'', ''SC'',
     ''SD'', ''TN'', ''TX'', ''UT'', ''VT'', ''VA'', ''WA'', ''WV'', ''WI'', ''WY'']"

text \<open>\<open>not isinstance(val, str) or not val.strip()\<close>\<close>

definition missing :: "json \<Rightarrow> bool" where
  "missing val = (case val of JStr s \<Rightarrow> str_strip s = [] | _ \<Rightarrow> True)"

text \<open>\<open>f"'{key}' is required."\<close>\<close>

definition required_msg :: "string \<Rightarrow> string" where
  "required_msg key = CHR 0x27 # key @ ''' is required.''"

text \<open>\<open>_required(data, *keys)\<close>: one message for each missing key, in the order of the keys.\<close>

primrec required :: "(string \<times> json) list \<Rightarrow> string list \<Rightarrow> string list" where
  "required data [] = []"
| "required data (key # keys) =
     (let val = dict_get data key (JStr [])
      in (if missing val then [required_msg key] else []) @ required data keys)"

definition email_msg :: string where
  "email_msg = '''email' is not a valid email address.''"

text \<open>
  \<open>if email and not re.match(..., email)\<close>: \<open>re.match\<close> raises \<open>TypeError\<close> on a value
  that is not a string.
\<close>

definition check_email :: "json \<Rightarrow> py_error + string list" where
  "check_email email =
     (if truthy email
      then (case email of
              JStr s \<Rightarrow> Inr (if re_match_anchored email_re s then [] else [email_msg])
            | _ \<Rightarrow> Inl TypeError)
      else Inr [])"

text \<open>\<open>f"'plan_code' '{plan_code}' is not a recognised plan."\<close>\<close>

definition plan_code_msg :: "string \<Rightarrow> string" where
  "plan_code_msg p = '''plan_code' '' @ CHR 0x27 # p @ ''' is not a recognised plan.''"

text \<open>
  \<open>if plan_code and plan_code not in VALID_PLAN_CODES\<close>: membership in a set hashes the
  value, which raises \<open>TypeError\<close> for a list or a dict; any other value that is not a
  string is not in the set.
\<close>

definition check_plan_code :: "json \<Rightarrow> py_error + string list" where
  "check_plan_code plan_code =
     (if truthy plan_code
      then (case plan_code of
              JStr s \<Rightarrow> Inr (if s \<in> VALID_PLAN_CODES then [] else [plan_code_msg s])
            | JList xs \<Rightarrow> Inl TypeError
            | JDict kvs \<Rightarrow> Inl TypeError
            | v \<Rightarrow> Inr [plan_code_msg (the (py_str v))])
      else Inr [])"

definition state_msg :: "string \<Rightarrow> string" where
  "state_msg st = '''address.state' '' @ CHR 0x27 # st
     @ ''' is not a valid US state abbreviation.''"

text \<open>
  \<open>if state and state.upper() not in US_STATES\<close>: only a string has \<open>upper\<close>, any other
  value raises \<open>AttributeError\<close>.
\<close>

definition check_state :: "json \<Rightarrow> py_error + string list" where
  "check_state state =
     (if truthy state
      then (case state of
              JStr s \<Rightarrow> Inr (if str_upper s \<in> US_STATES then [] else [state_msg s])
            | _ \<Rightarrow> Inl AttributeError)
      else Inr [])"

definition zip_msg :: string where
  "zip_msg = '''address.zip' must be a 5-digit US ZIP code.''"

text \<open>
  \<open>if zip_code and not re.match(r"^\d{5}$", str(zip_code))\<close>: the text of a list or of
  a dict does not start with a digit.
\<close>

definition check_zip :: "json \<Rightarrow> string list" where
  "check_zip zip_code =
     (if truthy zip_code
         \<and> \<not> (case py_str zip_code of Some s \<Rightarrow> re_match_anchored zip_re s | None \<Rightarrow> False)
      then [zip_msg] else [])"

definition address_msg :: string where
  "address_msg = '''address' must be an object.''"

text \<open>The branch on \<open>address = data.get("address")\<close>.\<close>

definition check_address :: "json \<Rightarrow> py_error + string list" where
  "check_address address =
     (case address of
        JDict a \<Rightarrow>
          (let errors = required a [''address1'', ''city'', ''state'', ''zip''] in
           and_then (check_state (dict_get a ''state'' (JStr [])))
             (\<lambda>state_errors.
                Inr (errors @ state_errors @ check_zip (dict_get a ''zip'' (JStr [])))))
      | _ \<Rightarrow> Inr [address_msg])"

definition validate_subscription_payload :: "json \<Rightarrow> py_error + string list" where
  "validate_subscription_payload data =
     (case data of
        JDict d \<Rightarrow>
          (let errors = required d [''recurly_token'', ''plan_code'', ''first_name'',
                                    ''last_name'', ''email''] in
           and_then (check_email (dict_get d ''email'' (JStr [])))
             (\<lambda>email_errors.
           and_then (check_plan_code (dict_get d ''plan_code'' (JStr [])))
             (\<lambda>plan_errors.
           and_then (check_address (dict_get d ''address'' JNull))
             (\<lambda>address_errors.
                Inr (errors @ email_errors @ plan_errors @ address_errors)))))
      | _ \<Rightarrow> Inr [''Request body must be a JSON object.''])"

section \<open>Validator of the serverless function (api/subscribe.py)\<close>

text \<open>The first loop of \<open>_validate\<close>, over the top-level keys.\<close>

primrec top_level_loop :: "(string \<times> json) list \<Rightarrow> string list \<Rightarrow> string list" where
  "top_level_loop data [] = []"
| "top_level_loop data (key # keys) =
     (if missing (dict_get data key (JStr []))
      then [CHR 0x27 # key @ ''' is required.''] else []) @ top_level_loop data keys"

text \<open>The second loop, over the address keys: \<open>f"'address.{key}' is required."\<close>.\<close>

primrec address_loop :: "(string \<times> json) list \<Rightarrow> string list \<Rightarrow> string list" where
  "address_loop address [] = []"
| "address_loop address (key # keys) =
     (if missing (dict_get address key (JStr []))
      then ['''address.'' @ key @ ''' is required.''] else []) @ address_loop address keys"

definition state_msg_serverless :: "string \<Rightarrow> string" where
  "state_msg_serverless st = '''address.state' '' @ CHR 0x27 # st
     @ ''' is not a valid US state.''"

definition check_state_serverless :: "json \<Rightarrow> py_error + string list" where
  "check_state_serverless state =
     (if truthy state
      then (case state of
              JStr s \<Rightarrow> Inr (if str_upper s \<in> US_STATES then [] else [state_msg_serverless s])
            | _ \<Rightarrow> Inl AttributeError)
      else Inr [])"

definition check_address_serverless :: "json \<Rightarrow> py_error + string list" where
  "check_address_serverless address =
     (case address of
        JDict a \<Rightarrow>
          (let errors = address_loop a [''address1'', ''city'', ''state'', ''zip''] in
           and_then (check_state_serverless (dict_get a ''state'' (JStr [])))
             (\<lambda>state_errors.
                Inr (errors @ state_errors @ check_zip (dict_get a ''zip'' (JStr [])))))
      | _ \<Rightarrow> Inr [address_msg])"

text \<open>
  \<open>_validate(data)\<close>: there is no \<open>isinstance\<close> test of \<open>data\<close>, so \<open>data.get\<close> raises
  \<open>AttributeError\<close> for a value that is not a dict.
\<close>

definition validate_serverless :: "json \<Rightarrow> py_error + string list" where
  "validate_serverless data =
     (case data of
        JDict d \<Rightarrow>
          (let errors = top_level_loop d [''recurly_token'', ''plan_code'', ''first_name'',
                                          ''last_name'', ''email''] in
           and_then (check_email (dict_get d ''email'' (JStr [])))
             (\<lambda>email_errors.
           and_then (check_plan_code (dict_get d ''plan_code'' (JStr [])))
             (\<lambda>plan_errors.
           and_then (check_address_serverless (dict_get d ''address'' JNull))
             (\<lambda>address_errors.
                Inr (errors @ email_errors @ plan_errors @ address_errors)))))
      | _ \<Rightarrow> Inl AttributeError)"

section \<open>Webhook receiver (backend/api/webhooks.py)\<close>

text \<open>An \<open>xml.etree.ElementTree.Element\<close>: tag, text and child elements.\<close>

datatype element =
  Element (elem_tag: string) (elem_text: "string option") (elem_children: "element list")

text \<open>\<open>node.find(tag)\<close>: the first child with that tag.\<close>

definition find_child :: "element \<Rightarrow> string \<Rightarrow> element option" where
  "find_child node t = List.find (\<lambda>c. elem_tag c = t) (elem_children node)"

text \<open>The loop of \<open>_text\<close> along the path.\<close>

primrec walk :: "string list \<Rightarrow> element option \<Rightarrow> element option" where
  "walk [] current = current"
| "walk (t # path) current =
     (case current of None \<Rightarrow> None | Some node \<Rightarrow> walk path (find_child node t))"

text \<open>\<open>_text(node, *path)\<close> with the default \<open>""\<close>.\<close>

definition text_at :: "element \<Rightarrow> string list \<Rightarrow> string" where
  "text_at node path =
     (case walk path (Some node) of
        None \<Rightarrow> []
      | Some current \<Rightarrow> (case elem_text current of None \<Rightarrow> [] | Some t \<Rightarrow> str_strip t))"

text \<open>
  What a request does besides answering: log records (level, format, arguments), the
  parse of the body, and the invocation of an event handler.
\<close>

datatype level = DEBUG | INFO | WARNING | ERROR

datatype handler =
    H_new_subscription
  | H_updated_subscription
  | H_canceled_subscription
  | H_expired_subscription
  | H_renewed_subscription
  | H_reactivated_subscription
  | H_billing_info_updated
  | H_failed_payment
  | H_successful_payment
  | H_new_invoice

datatype log_record = LogRecord level string "string list"

datatype effect =
    Log log_record
  | ParseBody
  | Invoke handler

text \<open>The ten handlers: each reads fields of the notification and logs them.\<close>

definition handle_new_subscription :: "element \<Rightarrow> log_record list" where
  "handle_new_subscription root =
     (let account_code = text_at root [''account'', ''account_code''];
          email = text_at root [''account'', ''email''];
          plan_code = text_at root [''subscription'', ''plan'', ''plan_code''];
          sub_uuid = text_at root [''subscription'', ''uuid'']
      in [LogRecord INFO ''NEW SUBSCRIPTION: account=%s email=%s plan=%s sub=%s''
            [account_code, email, plan_code, sub_uuid]])"

definition handle_canceled_subscription :: "element \<Rightarrow> log_record list" where
  "handle_canceled_subscription root =
     (let account_code = text_at root [''account'', ''account_code''];
          sub_uuid = text_at root [''subscription'', ''uuid''];
          expires_at = text_at root [''subscription'', ''expires_at'']
      in [LogRecord INFO ''CANCELED SUBSCRIPTION: account=%s sub=%s expires=%s''
            [account_code, sub_uuid, expires_at]])"

definition handle_updated_subscription :: "element \<Rightarrow> log_record list" where
  "handle_updated_subscription root =
     (let account_code = text_at root [''account'', ''account_code''];
          new_plan = text_at root [''subscription'', ''plan'', ''plan_code''];
          sub_uuid = text_at root [''subscription'', ''uuid'']
      in [LogRecord INFO ''UPDATED SUBSCRIPTION: account=%s sub=%s new_plan=%s''
            [account_code, sub_uuid, new_plan]])"

definition handle_expired_subscription :: "element \<Rightarrow> log_record list" where
  "handle_expired_subscription root =
     (let account_code = text_at root [''account'', ''account_code''];
          sub_uuid = text_at root [''subscription'', ''uuid'']
      in [LogRecord INFO ''EXPIRED SUBSCRIPTION: account=%s sub=%s'' [account_code, sub_uuid]])"

definition handle_renewed_subscription :: "element \<Rightarrow> log_record list" where
  "handle_renewed_subscription root =
     (let account_code = text_at root [''account'', ''account_code''];
          sub_uuid = text_at root [''subscription'', ''uuid''];
          next_renewal = text_at root [''subscription'', ''current_period_ends_at'']
      in [LogRecord INFO ''RENEWED SUBSCRIPTION: account=%s sub=%s next=%s''
            [account_code, sub_uuid, next_renewal]])"

definition handle_reactivated_subscription :: "element \<Rightarrow> log_record list" where
  "handle_reactivated_subscription root =
     (let account_code = text_at root [''account'', ''account_code''];
          sub_uuid = text_at root [''subscription'', ''uuid'']
      in [LogRecord INFO ''REACTIVATED SUBSCRIPTION: account=%s sub=%s'' [account_code, sub_uuid]])"

definition handle_billing_info_updated :: "element \<Rightarrow> log_record list" where
  "handle_billing_info_updated root =
     (let account_code = text_at root [''account'', ''account_code''];
          email = text_at root [''account'', ''email'']
      in [LogRecord INFO ''BILLING INFO UPDATED: account=%s email=%s'' [account_code, email]])"

definition handle_failed_payment :: "element \<Rightarrow> log_record list" where
  "handle_failed_payment root =
     (let account_code = text_at root [''account'', ''account_code''];
          email = text_at root [''account'', ''email''];
          invoice_number = text_at root [''invoice'', ''invoice_number''];
          amount_due = text_at root [''invoice'', ''balance_in_cents''];
          error_msg = text_at root [''transaction'', ''message'']
      in [LogRecord WARNING
            ''FAILED PAYMENT: account=%s email=%s invoice=%s amount_cents=%s error=%s''
            [account_code, email, invoice_number, amount_due, error_msg]])"

definition handle_successful_payment :: "element \<Rightarrow> log_record list" where
  "handle_successful_payment root =
     (let account_code = text_at root [''account'', ''account_code''];
          invoice_number = text_at root [''invoice'', ''invoice_number''];
          amount_cents = text_at root [''transaction'', ''amount_in_cents'']
      in [LogRecord INFO ''SUCCESSFUL PAYMENT: account=%s invoice=%s amount_cents=%s''
            [account_code, invoice_number, amount_cents]])"

definition handle_new_invoice :: "element \<Rightarrow> log_record list" where
  "handle_new_invoice root =
     (let account_code = text_at root [''account'', ''account_code''];
          invoice_number = text_at root [''invoice'', ''invoice_number''];
          state = text_at root [''invoice'', ''state'']
      in [LogRecord INFO ''NEW INVOICE: account=%s invoice=%s state=%s''
            [account_code, invoice_number, state]])"

text \<open>The handlers as the repository has them: none of them raises.\<close>

fun stub_handlers :: "handler \<Rightarrow> element \<Rightarrow> py_error + log_record list" where
  "stub_handlers H_new_subscription root = Inr (handle_new_subscription root)"
| "stub_handlers H_updated_subscription root = Inr (handle_updated_subscription root)"
| "stub_handlers H_canceled_subscription root = Inr (handle_canceled_subscription root)"
| "stub_handlers H_expired_subscription root = Inr (handle_expired_subscription root)"
| "stub_handlers H_renewed_subscription root = Inr (handle_renewed_subscription root)"
| "stub_handlers H_reactivated_subscription root = Inr (handle_reactivated_subscription root)"
| "stub_handlers H_billing_info_updated root = Inr (handle_billing_info_updated root)"
| "stub_handlers H_failed_payment root = Inr (handle_failed_payment root)"
| "stub_handlers H_successful_payment root = Inr (handle_successful_payment root)"
| "stub_handlers H_new_invoice root = Inr (handle_new_invoice root)"

text \<open>The dispatch table \<open>_HANDLERS\<close>.\<close>

definition HANDLERS :: "(string \<times> handler) list" where
  "HANDLERS = [
     (''new_subscription_notification'', H_new_subscription),
     (''updated_subscription_notification'', H_updated_subscription),
     (''canceled_subscription_notification'', H_canceled_subscription),
     (''expired_subscription_notification'', H_expired_subscription),
     (''renewed_subscription_notification'', H_renewed_subscription),
     (''reactivated_subscription_notification'', H_reactivated_subscription),
     (''billing_info_updated_notification'', H_billing_info_updated),
     (''failed_payment_notification'', H_failed_payment),
     (''successful_payment_notification'', H_successful_payment),
     (''new_invoice_notification'', H_new_invoice)]"

text \<open>A response: status, body (text or JSON) and extra headers.\<close>

datatype payload = Text string | Json json

record response =
  status :: nat
  content :: payload
  headers :: "(string \<times> string) list"

definition respond :: "nat \<Rightarrow> payload \<Rightarrow> response" where
  "respond code b = \<lparr>status = code, content = b, headers = []\<rparr>"

text \<open>
  The view function \<open>recurly_webhook\<close>. \<open>fromstring\<close> is \<open>ET.fromstring\<close>: it gives
  the root element or raises (\<open>ParseError\<close> for malformed XML). \<open>run\<close> is the
  behaviour of the handlers: the records a handler logs, or the exception it raises.
  An exception that nothing catches is the result \<open>Inl\<close>.
\<close>

definition recurly_webhook ::
  "(string \<Rightarrow> py_error + element) \<Rightarrow> (handler \<Rightarrow> element \<Rightarrow> py_error + log_record list)
    \<Rightarrow> string \<Rightarrow> (py_error + response) \<times> effect list" where
  "recurly_webhook fromstring run xml_body =
     (if xml_body = [] then (Inr (respond 400 (Json (JDict [(''error'', JStr ''Empty body'')]))), [])
      else case fromstring xml_body of
        Inl ParseError \<Rightarrow>
          (Inr (respond 400 (Json (JDict [(''error'', JStr ''Invalid XML'')]))),
           [ParseBody, Log (LogRecord ERROR ''Failed to parse webhook XML: %s'' [])])
      | Inl e \<Rightarrow> (Inl e, [ParseBody])
      | Inr root \<Rightarrow>
          (let event_type = elem_tag root in
           case map_of HANDLERS event_type of
             Some h \<Rightarrow>
               (case run h root of
                  Inr logged \<Rightarrow> (Inr (respond 200 (Text [])), [ParseBody, Invoke h] @ map Log logged)
                | Inl e \<Rightarrow>
                    (Inr (respond 200 (Text [])),
                     [ParseBody, Invoke h,
                      Log (LogRecord ERROR ''Error in webhook handler for '%s': %s'' [event_type])]))
           | None \<Rightarrow>
               (Inr (respond 200 (Text [])),
                [ParseBody, Log (LogRecord DEBUG ''Unhandled webhook event: %s'' [event_type])])))"

text \<open>The environment variables the decorator reads.\<close>

record environ =
  RECURLY_WEBHOOK_USER :: "string option"
  RECURLY_WEBHOOK_SECRET :: "string option"
  FLASK_ENV :: "string option"

text \<open>\<open>request.authorization\<close> and the request body.\<close>

record authorization =
  username :: "string option"
  password :: "string option"

record request =
  auth_header :: "authorization option"
  get_data :: string
  remote_addr :: string

text \<open>\<open>os.environ.get(name, default)\<close>\<close>

definition environ_get :: "string option \<Rightarrow> string \<Rightarrow> string" where
  "environ_get v dflt = (case v of None \<Rightarrow> dflt | Some s \<Rightarrow> s)"

text \<open>\<open>x or ""\<close> for an optional string.\<close>

definition or_empty :: "string option \<Rightarrow> string" where
  "or_empty v = (case v of None \<Rightarrow> [] | Some s \<Rightarrow> s)"

text \<open>
  \<open>hmac.compare_digest\<close> on two \<open>str\<close>: it raises \<open>TypeError\<close> unless both are ASCII.
\<close>

definition compare_digest :: "string \<Rightarrow> string \<Rightarrow> py_error + bool" where
  "compare_digest a b = (if isascii a \<and> isascii b then Inr (a = b) else Inl TypeError)"

text \<open>
  The decorator \<open>_check_basic_auth\<close> around a view function \<open>f\<close>. (The dash in the
  text of the development warning is written \<open>-\<close> here.)
\<close>

definition check_basic_auth ::
  "environ \<Rightarrow> (request \<Rightarrow> (py_error + response) \<times> effect list)
    \<Rightarrow> request \<Rightarrow> (py_error + response) \<times> effect list" where
  "check_basic_auth env f req =
     (let expected_user = environ_get (RECURLY_WEBHOOK_USER env) ''recurly'';
          expected_secret = environ_get (RECURLY_WEBHOOK_SECRET env) []
      in if expected_secret = [] then
           (if FLASK_ENV env = Some ''development''
            then (let (r, effects) = f req
                  in (r, Log (LogRecord WARNING
                           ''RECURLY_WEBHOOK_SECRET not set - skipping auth (dev mode).'' [])
                         # effects))
            else (Inr (respond 503
                    (Json (JDict [(''error'', JStr ''Webhook auth not configured'')]))), []))
         else case auth_header req of
           None \<Rightarrow>
             (Inr \<lparr>status = 401, content = Text ''Unauthorized'',
                   headers = [(''WWW-Authenticate'', ''Basic realm='' @ CHR 0x22 # ''Recurly'' @ [CHR 0x22])]\<rparr>, [])
         | Some auth \<Rightarrow>
             (case compare_digest (or_empty (username auth)) expected_user of
                Inl e \<Rightarrow> (Inl e, [])
              | Inr user_ok \<Rightarrow>
                  (case compare_digest (or_empty (password auth)) expected_secret of
                     Inl e \<Rightarrow> (Inl e, [])
                   | Inr secret_ok \<Rightarrow>
                       if \<not> (user_ok \<and> secret_ok)
                       then (Inr (respond 403 (Text ''Forbidden'')),
                             [Log (LogRecord WARNING ''Webhook auth failure from %s'' [remote_addr req])])
                       else f req)))"

text \<open>The route \<open>POST /api/webhooks/recurly\<close>: the decorated view function.\<close>

definition webhook_endpoint ::
  "environ \<Rightarrow> (string \<Rightarrow> py_error + element)
    \<Rightarrow> (handler \<Rightarrow> element \<Rightarrow> py_error + log_record list)
    \<Rightarrow> request \<Rightarrow> (py_error + response) \<times> effect list" where
  "webhook_endpoint env fromstring run req =
     check_basic_auth env (\<lambda>r. recurly_webhook fromstring run (get_data r)) req"

text \<open>The handlers a request invoked, the parses it made.\<close>

fun invoked :: "effect list \<Rightarrow> handler list" where
  "invoked [] = []"
| "invoked (Invoke h # es) = h # invoked es"
| "invoked (e # es) = invoked es"

definition parsed :: "effect list \<Rightarrow> bool" where
  "parsed es = (ParseBody \<in> set es)"

text \<open>
  The requests the decorator lets through to the view function: the development
  bypass, or credentials that compare equal to the configured ones.
\<close>

definition admitted :: "environ \<Rightarrow> request \<Rightarrow> bool" where
  "admitted env req =
     (let expected_user = environ_get (RECURLY_WEBHOOK_USER env) ''recurly'';
          expected_secret = environ_get (RECURLY_WEBHOOK_SECRET env) []
      in if expected_secret = [] then FLASK_ENV env = Some ''development''
         else case auth_header req of
           None \<Rightarrow> False
         | Some auth \<Rightarrow>
             compare_digest (or_empty (username auth)) expected_user = Inr True
             \<and> compare_digest (or_empty (password auth)) expected_secret = Inr True)"

section \<open>Provider client (backend/utils/recurly_client.py)\<close>

text \<open>
  The exceptions of the provider's SDK, by the classes the endpoints tell apart:
  \<open>ValidationError\<close>, \<open>NotFoundError\<close>, \<open>TransactionError\<close> and \<open>InvalidTokenError\<close>
  are unrelated subclasses of \<open>ApiError\<close>; \<open>OtherApiError\<close> is any other \<open>ApiError\<close>,
  \<open>NotApiError\<close> any exception outside that class (a network failure). \<open>exn_str\<close> is
  \<open>str(e)\<close>; \<open>exn_params\<close> is \<open>e.error.params\<close>, \<open>None\<close> when \<open>e.error\<close> or the list
  is not set.
\<close>

datatype recurly_class =
    ValidationError
  | NotFoundError
  | TransactionError
  | InvalidTokenError
  | OtherApiError
  | NotApiError

record recurly_exn =
  exn_class :: recurly_class
  exn_str :: string
  exn_params :: "json list option"

text \<open>The resources the SDK returns; a timestamp is held as its \<open>isoformat()\<close> text.\<close>

record subscription =
  sub_id :: string
  sub_uuid :: string
  sub_state :: string
  sub_plan :: "(string \<times> string) option"
  sub_unit_amount :: json
  sub_currency :: string
  sub_current_period_started_at :: "string option"
  sub_current_period_ends_at :: "string option"
  sub_activated_at :: "string option"
  sub_expires_at :: "string option"
  sub_paused_at :: "string option"
  sub_account_code :: string

record account =
  acc_code :: string
  acc_email :: string
  acc_first_name :: string
  acc_last_name :: string
  acc_created_at :: "string option"

record invoice =
  inv_id :: string
  inv_number :: string
  inv_state :: string
  inv_total :: json
  inv_currency :: string
  inv_due_on :: "string option"
  inv_closed_at :: "string option"

text \<open>
  The client: each operation of the SDK that the endpoints use gives a resource or
  raises. A listing is given by its items (the request is made when they are read).
\<close>

record client =
  sdk_create_subscription :: "json \<Rightarrow> recurly_exn + subscription"
  sdk_get_account :: "string \<Rightarrow> recurly_exn + account"
  sdk_list_account_subscriptions ::
    "string \<Rightarrow> (string \<times> json) list \<Rightarrow> recurly_exn + subscription list"
  sdk_pause_subscription :: "string \<Rightarrow> json \<Rightarrow> recurly_exn + subscription"
  sdk_cancel_subscription :: "string \<Rightarrow> recurly_exn + subscription"
  sdk_terminate_subscription ::
    "string \<Rightarrow> (string \<times> json) list \<Rightarrow> recurly_exn + subscription"
  sdk_update_subscription :: "string \<Rightarrow> json \<Rightarrow> recurly_exn + subscription"
  sdk_update_billing_info :: "string \<Rightarrow> json \<Rightarrow> recurly_exn + unit"
  sdk_list_account_invoices ::
    "string \<Rightarrow> (string \<times> json) list \<Rightarrow> recurly_exn + invoice list"

text \<open>The calls a request makes on the client, in order.\<close>

datatype call =
    CreateSubscription json
  | GetAccount string
  | ListAccountSubscriptions string "(string \<times> json) list"
  | PauseSubscription string json
  | CancelSubscription string
  | TerminateSubscription string "(string \<times> json) list"
  | UpdateSubscription string json
  | UpdateBillingInfo string json
  | ListAccountInvoices string "(string \<times> json) list"

text \<open>The calls that change something at the provider.\<close>

fun mutation :: "call \<Rightarrow> bool" where
  "mutation (CreateSubscription b) = True"
| "mutation (PauseSubscription i b) = True"
| "mutation (CancelSubscription i) = True"
| "mutation (TerminateSubscription i p) = True"
| "mutation (UpdateSubscription i b) = True"
| "mutation (UpdateBillingInfo a b) = True"
| "mutation (GetAccount a) = False"
| "mutation (ListAccountSubscriptions a p) = False"
| "mutation (ListAccountInvoices a p) = False"

text \<open>
  \<open>get_client\<close> and the module-level singleton: \<open>None\<close> when the API key is unset,
  empty or the placeholder. \<open>connect\<close> is \<open>recurly.Client\<close>.
\<close>

definition get_client :: "string option \<Rightarrow> (string \<Rightarrow> client) \<Rightarrow> py_error + client" where
  "get_client key connect =
     (let api_key = environ_get key [] in
      if api_key = [] \<or> api_key = ''your-private-api-key-here''
      then Inl RuntimeError else Inr (connect api_key))"

definition module_client :: "string option \<Rightarrow> (string \<Rightarrow> client) \<Rightarrow> client option" where
  "module_client key connect =
     (case get_client key connect of Inl e \<Rightarrow> None | Inr c \<Rightarrow> Some c)"

text \<open>An exception that leaves a view function, from Python or from the SDK.\<close>

datatype exn = Py py_error | Recurly recurly_exn

section \<open>Helpers for request data\<close>

text \<open>\<open>jsonify(dict), status\<close>\<close>

definition jsonify :: "(string \<times> json) list \<Rightarrow> nat \<Rightarrow> response" where
  "jsonify d code = respond code (Json (JDict d))"

definition failure :: "string \<Rightarrow> nat \<Rightarrow> response" where
  "failure msg code = jsonify [(''success'', JBool False), (''message'', JStr msg)] code"

text \<open>
  Flask around a view function (backend/app.py): an exception that leaves the function
  is answered by the handler for 500.
\<close>

definition flask :: "'e + response \<Rightarrow> response" where
  "flask result =
     (case result of
        Inl e \<Rightarrow> failure ''Internal server error'' 500
      | Inr r \<Rightarrow> r)"

text \<open>\<open>x.isoformat() if x else None\<close>\<close>

definition iso_or_none :: "string option \<Rightarrow> json" where
  "iso_or_none t = (case t of None \<Rightarrow> JNull | Some s \<Rightarrow> JStr s)"

text \<open>\<open>x or {}\<close>, \<open>x or ""\<close>, \<open>x or None\<close>\<close>

definition or_else :: "json \<Rightarrow> json \<Rightarrow> json" where
  "or_else x dflt = (if truthy x then x else dflt)"

text \<open>\<open>data.get(key, default)\<close> on any value: only a dict has \<open>get\<close>.\<close>

definition py_get :: "json \<Rightarrow> string \<Rightarrow> json \<Rightarrow> py_error + json" where
  "py_get x key dflt = (case x of JDict d \<Rightarrow> Inr (dict_get d key dflt) | _ \<Rightarrow> Inl AttributeError)"

text \<open>\<open>d[key]\<close> on a dict.\<close>

definition subscript :: "(string \<times> json) list \<Rightarrow> string \<Rightarrow> py_error + json" where
  "subscript d key = (case map_of d key of None \<Rightarrow> Inl KeyError | Some v \<Rightarrow> Inr v)"

text \<open>
  \<open>x.strip()\<close>, \<open>x.lower()\<close>, \<open>x.upper()\<close>: methods of \<open>str\<close> only. (\<open>py_upper\<close> is
  exact on every string without U+00B5 and U+00FF, see \<open>upper_char\<close>.)
\<close>

definition py_strip :: "json \<Rightarrow> py_error + json" where
  "py_strip x = (case x of JStr s \<Rightarrow> Inr (JStr (str_strip s)) | _ \<Rightarrow> Inl AttributeError)"

definition py_lower :: "json \<Rightarrow> py_error + json" where
  "py_lower x = (case x of JStr s \<Rightarrow> Inr (JStr (str_lower s)) | _ \<Rightarrow> Inl AttributeError)"

definition py_upper :: "json \<Rightarrow> py_error + json" where
  "py_upper x = (case x of JStr s \<Rightarrow> Inr (JStr (str_upper s)) | _ \<Rightarrow> Inl AttributeError)"

text \<open>
  \<open>int(x)\<close>. For a string: whitespace around, a sign, decimal digits with single
  underscores between them, and no more than 4300 digits, the limit of CPython on the
  conversion of a string (\<open>sys.get_int_max_str_digits()\<close>); anything else is a
  \<open>ValueError\<close>. (\<open>int\<close> does not take U+001C to U+001F for whitespace.)
\<close>

definition int_space :: "char \<Rightarrow> bool" where
  "int_space c = (let n = code_point c in (9 \<le> n \<and> n \<le> 13) \<or> n = 32 \<or> n = 133 \<or> n = 160)"

fun grouped_digits :: "string \<Rightarrow> bool" where
  "grouped_digits [] = False"
| "grouped_digits [c] = isdigit c"
| "grouped_digits (c # d # r) =
     (isdigit c \<and> (if d = CHR ''_'' then grouped_digits r else grouped_digits (d # r)))"

definition digits_value :: "string \<Rightarrow> nat" where
  "digits_value ds = foldl (\<lambda>v c. if c = CHR ''_'' then v else 10 * v + (code_point c - 48)) 0 ds"

definition int_of_str :: "string \<Rightarrow> int option" where
  "int_of_str s =
     (let t = rev (dropWhile int_space (rev (dropWhile int_space s)));
          negative = (t \<noteq> [] \<and> hd t = CHR ''-'');
          ds = (if t \<noteq> [] \<and> (hd t = CHR ''-'' \<or> hd t = CHR ''+'') then tl t else t)
      in if grouped_digits ds \<and> length (filter isdigit ds) \<le> 4300
         then Some (if negative then - int (digits_value ds) else int (digits_value ds))
         else None)"

fun py_int :: "json \<Rightarrow> py_error + int" where
  "py_int (JInt n) = Inr n"
| "py_int (JBool b) = Inr (if b then 1 else 0)"
| "py_int (JStr s) = (case int_of_str s of None \<Rightarrow> Inl ValueError | Some n \<Rightarrow> Inr n)"
| "py_int v = Inl TypeError"

section \<open>Account endpoints (backend/api/account.py)\<close>

definition serialize_subscription :: "subscription \<Rightarrow> json" where
  "serialize_subscription sub = JDict [
     (''id'', JStr (sub_id sub)),
     (''uuid'', JStr (sub_uuid sub)),
     (''state'', JStr (sub_state sub)),
     (''plan_code'', case sub_plan sub of None \<Rightarrow> JNull | Some (c, n) \<Rightarrow> JStr c),
     (''plan_name'', case sub_plan sub of None \<Rightarrow> JNull | Some (c, n) \<Rightarrow> JStr n),
     (''unit_amount'', sub_unit_amount sub),
     (''currency'', JStr (sub_currency sub)),
     (''current_period_started_at'', iso_or_none (sub_current_period_started_at sub)),
     (''current_period_ends_at'', iso_or_none (sub_current_period_ends_at sub)),
     (''activated_at'', iso_or_none (sub_activated_at sub)),
     (''expires_at'', iso_or_none (sub_expires_at sub)),
     (''paused_at'', iso_or_none (sub_paused_at sub))]"

definition serialize_invoice :: "invoice \<Rightarrow> json" where
  "serialize_invoice i = JDict [
     (''id'', JStr (inv_id i)),
     (''number'', JStr (inv_number i)),
     (''state'', JStr (inv_state i)),
     (''total'', inv_total i),
     (''currency'', JStr (inv_currency i)),
     (''due_on'', iso_or_none (inv_due_on i)),
     (''closed_at'', iso_or_none (inv_closed_at i))]"

text \<open>The parameters of the lookup of the active subscription.\<close>

definition active_params :: "(string \<times> json) list" where
  "active_params = [(''state'', JStr ''active''), (''limit'', JInt 1)]"

text \<open>\<open>_get_active_subscription\<close>: the first item of the listing, or \<open>None\<close>.\<close>

definition get_active_subscription ::
  "client \<Rightarrow> string \<Rightarrow> (recurly_exn + subscription option) \<times> call list" where
  "get_active_subscription c account_code =
     (let account_id = ''code-'' @ account_code in
      (case sdk_list_account_subscriptions c account_id active_params of
         Inl e \<Rightarrow> Inl e
       | Inr subs \<Rightarrow> Inr (case subs of [] \<Rightarrow> None | sub # rest \<Rightarrow> Some sub),
       [ListAccountSubscriptions account_id active_params]))"

definition not_configured :: "(exn + response) \<times> call list" where
  "not_configured = (Inr (failure ''Recurly not configured'' 503), [])"

text \<open>
  The \<open>except\<close> clauses of the endpoints that read: \<open>NotFoundError\<close>, then any
  \<open>ApiError\<close>; anything else leaves the function.
\<close>

definition read_errors :: "recurly_exn \<Rightarrow> exn + response" where
  "read_errors e =
     (case exn_class e of
        NotFoundError \<Rightarrow> Inr (failure ''Account not found'' 404)
      | NotApiError \<Rightarrow> Inl (Recurly e)
      | _ \<Rightarrow> Inr (failure (exn_str e) 502))"

definition get_account :: "client option \<Rightarrow> string \<Rightarrow> (exn + response) \<times> call list" where
  "get_account client account_code =
     (case client of
        None \<Rightarrow> not_configured
      | Some c \<Rightarrow>
          (case sdk_get_account c (''code-'' @ account_code) of
             Inl e \<Rightarrow> (read_errors e, [GetAccount (''code-'' @ account_code)])
           | Inr account \<Rightarrow>
               (case get_active_subscription c account_code of
                  (Inl e, calls) \<Rightarrow>
                    (read_errors e, GetAccount (''code-'' @ account_code) # calls)
                | (Inr active_sub, calls) \<Rightarrow>
                    (Inr (jsonify [
                       (''success'', JBool True),
                       (''account'', JDict [
                          (''code'', JStr (acc_code account)),
                          (''email'', JStr (acc_email account)),
                          (''first_name'', JStr (acc_first_name account)),
                          (''last_name'', JStr (acc_last_name account)),
                          (''created_at'', iso_or_none (acc_created_at account))]),
                       (''active_subscription'',
                          case active_sub of
                            None \<Rightarrow> JNull
                          | Some sub \<Rightarrow> serialize_subscription sub)] 200),
                     GetAccount (''code-'' @ account_code) # calls))))"

definition list_subscriptions :: "client option \<Rightarrow> string \<Rightarrow> (exn + response) \<times> call list" where
  "list_subscriptions client account_code =
     (case client of
        None \<Rightarrow> not_configured
      | Some c \<Rightarrow>
          (let account_id = ''code-'' @ account_code; params = [(''limit'', JInt 20)] in
           (case sdk_list_account_subscriptions c account_id params of
              Inl e \<Rightarrow> read_errors e
            | Inr subs \<Rightarrow>
                Inr (jsonify [
                  (''success'', JBool True),
                  (''subscriptions'', JList (map serialize_subscription subs))] 200),
            [ListAccountSubscriptions account_id params])))"

definition list_invoices :: "client option \<Rightarrow> string \<Rightarrow> (exn + response) \<times> call list" where
  "list_invoices client account_code =
     (case client of
        None \<Rightarrow> not_configured
      | Some c \<Rightarrow>
          (let account_id = ''code-'' @ account_code; params = [(''limit'', JInt 20)] in
           (case sdk_list_account_invoices c account_id params of
              Inl e \<Rightarrow> read_errors e
            | Inr invoices \<Rightarrow>
                Inr (jsonify [
                  (''success'', JBool True),
                  (''invoices'', JList (map serialize_invoice invoices))] 200),
            [ListAccountInvoices account_id params])))"

text \<open>The \<open>except\<close> clauses of \<open>pause_subscription\<close>.\<close>

definition pause_errors :: "recurly_exn \<Rightarrow> exn + response" where
  "pause_errors e =
     (case exn_class e of
        NotFoundError \<Rightarrow> Inr (failure ''Subscription not found'' 404)
      | ValidationError \<Rightarrow> Inr (failure (exn_str e) 422)
      | NotApiError \<Rightarrow> Inl (Recurly e)
      | _ \<Rightarrow> Inr (failure (exn_str e) 502))"

definition no_active_subscription :: response where
  "no_active_subscription = failure ''No active subscription found'' 404"

text \<open>
  \<open>pause_subscription\<close>. \<open>body\<close> is \<open>request.get_json(silent=True)\<close>, \<open>JNull\<close> when
  there is no JSON body. Reading the cycles happens before the \<open>try\<close>.
\<close>

definition pause_subscription ::
  "client option \<Rightarrow> string \<Rightarrow> json \<Rightarrow> (exn + response) \<times> call list" where
  "pause_subscription client account_code body =
     (case client of
        None \<Rightarrow> not_configured
      | Some c \<Rightarrow>
          (let data = or_else body (JDict []) in
           case and_then (py_get data ''remaining_pause_cycles'' (JInt 1)) py_int of
             Inl e \<Rightarrow> (Inl (Py e), [])
           | Inr cycles \<Rightarrow>
               (case get_active_subscription c account_code of
                  (Inl e, calls) \<Rightarrow> (pause_errors e, calls)
                | (Inr None, calls) \<Rightarrow> (Inr no_active_subscription, calls)
                | (Inr (Some active_sub), calls) \<Rightarrow>
                    (let request_body = JDict [(''remaining_pause_cycles'', JInt cycles)] in
                     (case sdk_pause_subscription c (sub_id active_sub) request_body of
                        Inl e \<Rightarrow> pause_errors e
                      | Inr updated \<Rightarrow>
                          Inr (jsonify [
                            (''success'', JBool True),
                            (''message'', JStr (''Subscription paused for '' @ str_int cycles
                                                @ '' billing cycle(s).'')),
                            (''subscription'', serialize_subscription updated)] 200),
                      calls @ [PauseSubscription (sub_id active_sub) request_body])))))"

text \<open>The \<open>except\<close> clauses of \<open>cancel_subscription\<close>.\<close>

definition cancel_errors :: "recurly_exn \<Rightarrow> exn + response" where
  "cancel_errors e =
     (case exn_class e of
        NotFoundError \<Rightarrow> Inr (failure ''Subscription not found'' 404)
      | NotApiError \<Rightarrow> Inl (Recurly e)
      | _ \<Rightarrow> Inr (failure (exn_str e) 502))"

definition cancel_subscription ::
  "client option \<Rightarrow> string \<Rightarrow> json \<Rightarrow> (exn + response) \<times> call list" where
  "cancel_subscription client account_code body =
     (case client of
        None \<Rightarrow> not_configured
      | Some c \<Rightarrow>
          (let data = or_else body (JDict []) in
           case py_get data ''at_end_of_billing_period'' (JBool True) of
             Inl e \<Rightarrow> (Inl (Py e), [])
           | Inr at_period_end \<Rightarrow>
               (case get_active_subscription c account_code of
                  (Inl e, calls) \<Rightarrow> (cancel_errors e, calls)
                | (Inr None, calls) \<Rightarrow> (Inr no_active_subscription, calls)
                | (Inr (Some active_sub), calls) \<Rightarrow>
                    (let (result, mutating) =
                           (if truthy at_period_end
                            then (sdk_cancel_subscription c (sub_id active_sub),
                                  CancelSubscription (sub_id active_sub))
                            else (sdk_terminate_subscription c (sub_id active_sub)
                                    [(''refund'', JStr ''none'')],
                                  TerminateSubscription (sub_id active_sub)
                                    [(''refund'', JStr ''none'')]))
                     in (case result of
                           Inl e \<Rightarrow> cancel_errors e
                         | Inr updated \<Rightarrow>
                             Inr (jsonify [
                               (''success'', JBool True),
                               (''message'', JStr (''Subscription canceled.'' @
                                  (if truthy at_period_end
                                   then '' You'll continue to receive deliveries until the end of your billing period.''
                                   else []))),
                               (''subscription'', serialize_subscription updated)] 200),
                         calls @ [mutating])))))"

text \<open>The \<open>except\<close> clauses of \<open>change_plan\<close>.\<close>

definition change_plan_errors :: "recurly_exn \<Rightarrow> exn + response" where
  "change_plan_errors e =
     (case exn_class e of
        NotFoundError \<Rightarrow> Inr (failure ''Subscription or plan not found'' 404)
      | ValidationError \<Rightarrow> Inr (failure (exn_str e) 422)
      | NotApiError \<Rightarrow> Inl (Recurly e)
      | _ \<Rightarrow> Inr (failure (exn_str e) 502))"

text \<open>\<open>(data.get(key) or "").strip()\<close>\<close>

definition stripped_field :: "json \<Rightarrow> string \<Rightarrow> py_error + json" where
  "stripped_field data key =
     and_then (py_get data key JNull) (\<lambda>v. py_strip (or_else v (JStr [])))"

definition change_plan ::
  "client option \<Rightarrow> string \<Rightarrow> json \<Rightarrow> (exn + response) \<times> call list" where
  "change_plan client account_code body =
     (case client of
        None \<Rightarrow> not_configured
      | Some c \<Rightarrow>
          (let data = or_else body (JDict []) in
           case stripped_field data ''plan_code'' of
             Inl e \<Rightarrow> (Inl (Py e), [])
           | Inr new_plan_code \<Rightarrow>
               if \<not> truthy new_plan_code
               then (Inr (failure '''plan_code' is required.'' 422), [])
               else
               (case get_active_subscription c account_code of
                  (Inl e, calls) \<Rightarrow> (change_plan_errors e, calls)
                | (Inr None, calls) \<Rightarrow> (Inr no_active_subscription, calls)
                | (Inr (Some active_sub), calls) \<Rightarrow>
                    (let request_body = JDict [(''plan_code'', new_plan_code)] in
                     (case sdk_update_subscription c (sub_id active_sub) request_body of
                        Inl e \<Rightarrow> change_plan_errors e
                      | Inr updated \<Rightarrow>
                          Inr (jsonify [
                            (''success'', JBool True),
                            (''message'', JStr (''Plan updated to ''
                                                @ the (py_str new_plan_code) @ ''.'')),
                            (''subscription'', serialize_subscription updated)] 200),
                      calls @ [UpdateSubscription (sub_id active_sub) request_body])))))"

text \<open>The \<open>except\<close> clauses of \<open>update_billing\<close>.\<close>

definition billing_errors :: "recurly_exn \<Rightarrow> exn + response" where
  "billing_errors e =
     (case exn_class e of
        NotFoundError \<Rightarrow> Inr (failure ''Account not found'' 404)
      | ValidationError \<Rightarrow> Inr (failure (exn_str e) 422)
      | TransactionError \<Rightarrow> Inr (failure (exn_str e) 402)
      | NotApiError \<Rightarrow> Inl (Recurly e)
      | _ \<Rightarrow> Inr (failure (exn_str e) 502))"

definition update_billing ::
  "client option \<Rightarrow> string \<Rightarrow> json \<Rightarrow> (exn + response) \<times> call list" where
  "update_billing client account_code body =
     (case client of
        None \<Rightarrow> not_configured
      | Some c \<Rightarrow>
          (let data = or_else body (JDict []) in
           case stripped_field data ''recurly_token'' of
             Inl e \<Rightarrow> (Inl (Py e), [])
           | Inr token \<Rightarrow>
               if \<not> truthy token
               then (Inr (failure '''recurly_token' is required.'' 422), [])
               else
               (let account_id = ''code-'' @ account_code;
                    request_body = JDict [(''token_id'', token)] in
                (case sdk_update_billing_info c account_id request_body of
                   Inl e \<Rightarrow> billing_errors e
                 | Inr u \<Rightarrow>
                     Inr (jsonify [
                       (''success'', JBool True),
                       (''message'', JStr ''Payment method updated successfully.'')] 200),
                 [UpdateBillingInfo account_id request_body]))))"

section \<open>Subscription endpoint (backend/api/subscribe.py)\<close>

text \<open>\<open>x[...]\<close> and \<open>x.get\<close> need a dict.\<close>

definition as_dict :: "json \<Rightarrow> py_error + (string \<times> json) list" where
  "as_dict x = (case x of JDict d \<Rightarrow> Inr d | _ \<Rightarrow> Inl TypeError)"

text \<open>\<open>_account_code_from_email(data["email"])\<close> on a JSON value.\<close>

definition py_account_code :: "json \<Rightarrow> py_error + json" where
  "py_account_code x =
     (case x of JStr s \<Rightarrow> Inr (JStr (account_code_from_email s)) | _ \<Rightarrow> Inl AttributeError)"

text \<open>The \<open>"address"\<close> entry of the account in the request to the provider.\<close>

definition account_address ::
  "(string \<times> json) list \<Rightarrow> (string \<times> json) list \<Rightarrow> py_error + json" where
  "account_address d address =
     and_then (subscript address ''address1'') (\<lambda>street1.
     and_then (subscript address ''city'') (\<lambda>city.
     and_then (and_then (subscript address ''state'') py_upper) (\<lambda>region.
     and_then (subscript address ''zip'') (\<lambda>postal_code.
       Inr (JDict [
         (''street1'', street1),
         (''street2'', or_else (dict_get address ''address2'' JNull) JNull),
         (''city'', city),
         (''region'', region),
         (''postal_code'', postal_code),
         (''country'', dict_get address ''country'' (JStr ''US'')),
         (''phone'', or_else (dict_get d ''phone'' JNull) JNull)])))))"

text \<open>
  The dict literal \<open>subscription_body\<close>, its entries in order; \<open>extra_billing\<close> is
  what the assignment after the literal adds to \<open>billing_info\<close>.
\<close>

definition subscription_body ::
  "(string \<times> json) list \<Rightarrow> (string \<times> json) list \<Rightarrow> (string \<times> json) list
    \<Rightarrow> py_error + (string \<times> json) list" where
  "subscription_body d address extra_billing =
     and_then (subscript d ''plan_code'') (\<lambda>plan_code.
     and_then (and_then (subscript d ''email'') py_account_code) (\<lambda>code.
     and_then (and_then (subscript d ''first_name'') py_strip) (\<lambda>first_name.
     and_then (and_then (subscript d ''last_name'') py_strip) (\<lambda>last_name.
     and_then (and_then (and_then (subscript d ''email'') py_strip) py_lower) (\<lambda>email.
     and_then (account_address d address) (\<lambda>account_addr.
     and_then (subscript d ''recurly_token'') (\<lambda>token.
       Inr [
         (''plan_code'', plan_code),
         (''currency'', JStr ''USD''),
         (''account'', JDict [
            (''code'', code),
            (''first_name'', first_name),
            (''last_name'', last_name),
            (''email'', email),
            (''address'', account_addr),
            (''billing_info'', JDict ((''token_id'', token) # extra_billing))])])))))))"

text \<open>
  The optional start date. \<open>strptime\<close> is \<open>datetime.strptime(s, "%Y-%m-%d")\<close> followed
  by \<open>isoformat()\<close> in UTC, \<open>None\<close> for its \<open>ValueError\<close>, which is caught; a start
  date that is not a string makes it raise \<open>TypeError\<close>, which is not.
\<close>

definition starts_at :: "(string \<Rightarrow> string option) \<Rightarrow> json \<Rightarrow> py_error + (string \<times> json) list" where
  "starts_at strptime start_date =
     (if truthy start_date \<and> start_date \<noteq> JStr ''asap''
      then (case start_date of
              JStr s \<Rightarrow>
                (case strptime s of
                   Some stamp \<Rightarrow> Inr [(''starts_at'', JStr stamp)]
                 | None \<Rightarrow> Inr [])
            | _ \<Rightarrow> Inl TypeError)
      else Inr [])"

text \<open>The optional coupon: \<open>[coupon_code.strip().upper()]\<close>.\<close>

definition coupon_codes :: "json \<Rightarrow> py_error + (string \<times> json) list" where
  "coupon_codes coupon_code =
     (if truthy coupon_code
      then and_then (and_then (py_strip coupon_code) py_upper)
             (\<lambda>c. Inr [(''coupon_codes'', JList [c])])
      else Inr [])"

text \<open>
  The 3-D-Secure token of a \<open>TransactionError\<close>:
  \<open>e.error.params[0].get("three_d_secure_action_token_id")\<close> when \<open>e.error\<close> and its
  \<open>params\<close> are set, \<open>None\<close> otherwise and when reading it raises.
\<close>

definition tds_token :: "recurly_exn \<Rightarrow> json" where
  "tds_token e =
     (case exn_params e of
        Some (p # ps) \<Rightarrow>
          (case p of
             JDict d \<Rightarrow> dict_get d ''three_d_secure_action_token_id'' JNull
           | _ \<Rightarrow> JNull)
      | _ \<Rightarrow> JNull)"

text \<open>The \<open>except\<close> clauses of \<open>create_subscription\<close>: every exception is answered.\<close>

definition create_errors :: "recurly_exn \<Rightarrow> response" where
  "create_errors e =
     (case exn_class e of
        ValidationError \<Rightarrow> failure (exn_str e) 422
      | NotFoundError \<Rightarrow> failure (exn_str e) 404
      | TransactionError \<Rightarrow>
          (let token = tds_token e in
           if truthy token
           then jsonify [
                  (''success'', JBool False),
                  (''three_d_secure_action_token_id'', token),
                  (''message'', JStr ''Card authentication required.'')] 402
           else failure (exn_str e) 402)
      | InvalidTokenError \<Rightarrow>
          failure ''Payment token is invalid or expired. Please re-enter your card details.'' 422
      | OtherApiError \<Rightarrow> failure ''A payment error occurred. Please try again.'' 502
      | NotApiError \<Rightarrow> failure ''Internal server error.'' 500)"

definition created :: "subscription \<Rightarrow> (string \<times> json) list" where
  "created sub = [
     (''success'', JBool True),
     (''subscription_id'', JStr (sub_id sub)),
     (''account_code'', JStr (sub_account_code sub)),
     (''state'', JStr (sub_state sub)),
     (''current_period_ends_at'', iso_or_none (sub_current_period_ends_at sub))]"

text \<open>
  What is built between the validation and the call of the provider: the literal with
  the optional 3-D-Secure result token, then the start date, then the coupon.
\<close>

definition request_to_provider ::
  "(string \<Rightarrow> string option) \<Rightarrow> (string \<times> json) list \<Rightarrow> py_error + json" where
  "request_to_provider strptime d =
     and_then (and_then (subscript d ''address'') as_dict) (\<lambda>address.
     (let tds_result = dict_get d ''three_d_secure_action_result_token_id'' JNull;
          extra_billing = (if truthy tds_result
                           then [(''three_d_secure_action_result_token_id'', tds_result)]
                           else [])
      in and_then (subscription_body d address extra_billing) (\<lambda>entries.
         and_then (starts_at strptime (dict_get d ''start_date'' (JStr ''asap''))) (\<lambda>start.
         and_then (coupon_codes (dict_get d ''coupon_code'' JNull)) (\<lambda>coupons.
           Inr (JDict (entries @ start @ coupons)))))))"

text \<open>
  \<open>create_subscription\<close>. \<open>data\<close> is \<open>request.get_json(silent=True)\<close>, \<open>JNull\<close> when
  the body is no JSON.
\<close>

definition create_subscription ::
  "client option \<Rightarrow> (string \<Rightarrow> string option) \<Rightarrow> json \<Rightarrow> (exn + response) \<times> call list" where
  "create_subscription client strptime data =
     (case client of
        None \<Rightarrow>
          (Inr (failure ''Recurly API key not configured. See .env.example.'' 503), [])
      | Some c \<Rightarrow>
          if data = JNull then (Inr (failure ''Request body must be JSON.'' 400), [])
          else
          (case validate_subscription_payload data of
             Inl e \<Rightarrow> (Inl (Py e), [])
           | Inr (first # others) \<Rightarrow>
               (Inr (jsonify [
                  (''success'', JBool False),
                  (''message'', JStr first),
                  (''errors'', JList (map JStr (first # others)))] 422), [])
           | Inr [] \<Rightarrow>
               (case and_then (as_dict data) (request_to_provider strptime) of
                  Inl e \<Rightarrow> (Inl (Py e), [])
                | Inr request_body \<Rightarrow>
                    (case sdk_create_subscription c request_body of
                       Inr sub \<Rightarrow> Inr (jsonify (created sub) 201)
                     | Inl e \<Rightarrow> Inr (create_errors e),
                     [CreateSubscription request_body]))))"

section \<open>Serverless function (api/subscribe.py)\<close>

definition cors_headers :: "(string \<times> string) list" where
  "cors_headers = [
     (''Access-Control-Allow-Origin'', ''*''),
     (''Access-Control-Allow-Methods'', ''POST, OPTIONS''),
     (''Access-Control-Allow-Headers'', ''Content-Type''),
     (''Content-Type'', ''application/json'')]"

text \<open>\<open>_respond\<close>: the \<open>Content-Length\<close> header of the answer is left out.\<close>

definition respond_json :: "nat \<Rightarrow> (string \<times> json) list \<Rightarrow> response" where
  "respond_json code d = \<lparr>status = code, content = Json (JDict d), headers = cors_headers\<rparr>"

definition failure_json :: "nat \<Rightarrow> string \<Rightarrow> response" where
  "failure_json code msg = respond_json code [(''success'', JBool False), (''message'', JStr msg)]"

text \<open>\<open>_get_client\<close> of the serverless function.\<close>

definition get_client_serverless :: "string option \<Rightarrow> (string \<Rightarrow> client) \<Rightarrow> client option" where
  "get_client_serverless key connect =
     (let api_key = environ_get key [] in if api_key = [] then None else Some (connect api_key))"

text \<open>The request as the handler reads it: the header and the stream of the body.\<close>

record post_request =
  content_length :: "string option"
  rfile :: string

text \<open>\<open>rfile.read(n)\<close>\<close>

definition read_bytes :: "string \<Rightarrow> int \<Rightarrow> string" where
  "read_bytes stream n = (if n < 0 then stream else take (nat n) stream)"

definition request_to_provider_serverless ::
  "(string \<Rightarrow> string option) \<Rightarrow> (string \<times> json) list \<Rightarrow> py_error + json" where
  "request_to_provider_serverless strptime d =
     and_then (and_then (subscript d ''address'') as_dict) (\<lambda>address.
     and_then (subscription_body d address []) (\<lambda>entries.
     and_then (starts_at strptime (dict_get d ''start_date'' (JStr ''asap''))) (\<lambda>start.
     and_then (coupon_codes (dict_get d ''coupon_code'' JNull)) (\<lambda>coupons.
       Inr (JDict (entries @ start @ coupons))))))"

text \<open>The \<open>except\<close> clauses of \<open>do_POST\<close>.\<close>

definition post_errors :: "recurly_exn \<Rightarrow> response" where
  "post_errors e =
     (case exn_class e of
        ValidationError \<Rightarrow> failure_json 422 (exn_str e)
      | NotFoundError \<Rightarrow> failure_json 404 (exn_str e)
      | TransactionError \<Rightarrow> failure_json 402 (exn_str e)
      | InvalidTokenError \<Rightarrow>
          failure_json 422
            ''Payment token is invalid or expired. Please re-enter your card details.''
      | OtherApiError \<Rightarrow> failure_json 502 ''A payment error occurred. Please try again.''
      | NotApiError \<Rightarrow> failure_json 500 ''Internal server error.'')"

text \<open>
  \<open>handler.do_POST\<close>. \<open>key\<close> is the environment's API key, \<open>json_loads\<close> is
  \<open>json.loads\<close> with \<open>None\<close> for the decoding errors that are caught.
\<close>

definition do_POST ::
  "string option \<Rightarrow> (string \<Rightarrow> client) \<Rightarrow> (string \<Rightarrow> json option)
    \<Rightarrow> (string \<Rightarrow> string option) \<Rightarrow> post_request \<Rightarrow> (exn + response) \<times> call list" where
  "do_POST key connect json_loads strptime req =
     (case get_client_serverless key connect of
        None \<Rightarrow> (Inr (failure_json 503 ''Recurly API key not configured.''), [])
      | Some c \<Rightarrow>
          (case py_int (case content_length req of None \<Rightarrow> JInt 0 | Some h \<Rightarrow> JStr h) of
             Inl e \<Rightarrow> (Inl (Py e), [])
           | Inr n \<Rightarrow>
               (case json_loads (read_bytes (rfile req) n) of
                  None \<Rightarrow> (Inr (failure_json 400 ''Request body must be JSON.''), [])
                | Some data \<Rightarrow>
                    (case validate_serverless data of
                       Inl e \<Rightarrow> (Inl (Py e), [])
                     | Inr (first # others) \<Rightarrow>
                         (Inr (respond_json 422 [
                            (''success'', JBool False),
                            (''message'', JStr first),
                            (''errors'', JList (map JStr (first # others)))]), [])
                     | Inr [] \<Rightarrow>
                         (case and_then (as_dict data) (request_to_provider_serverless strptime) of
                            Inl e \<Rightarrow> (Inl (Py e), [])
                          | Inr request_body \<Rightarrow>
                              (case sdk_create_subscription c request_body of
                                 Inr sub \<Rightarrow> Inr (respond_json 201 (created sub))
                               | Inl e \<Rightarrow> Inr (post_errors e),
                               [CreateSubscription request_body]))))))"

section \<open>Example inputs\<close>

text \<open>The spec's example address and payloads for the validators.\<close>

definition example_email :: string where
  "example_email = ''Jane.O'Brien+test@Example.com''"

definition example_address :: json where
  "example_address = JDict [
     (''address1'', JStr ''123 Bloom St''),
     (''city'', JStr ''New York''),
     (''state'', JStr ''ny''),
     (''zip'', JStr ''10001'')]"

definition example_fields :: "json \<Rightarrow> json \<Rightarrow> (string \<times> json) list" where
  "example_fields email address = [
     (''recurly_token'', JStr ''9ce4c22f''),
     (''plan_code'', JStr ''classic-monthly''),
     (''first_name'', JStr ''Jane''),
     (''last_name'', JStr ''Smith''),
     (''email'', email),
     (''address'', address)]"

definition example_payload :: "json \<Rightarrow> json" where
  "example_payload email = JDict (example_fields email example_address)"

text \<open>A webhook configuration, a notification and requests with credentials.\<close>

definition example_env :: environ where
  "example_env = \<lparr>RECURLY_WEBHOOK_USER = None, RECURLY_WEBHOOK_SECRET = Some ''s3cret'',
     FLASK_ENV = Some ''production''\<rparr>"

definition example_notification :: element where
  "example_notification =
     Element ''canceled_subscription_notification'' None [
       Element ''account'' None [Element ''account_code'' (Some '' jane-example.com '') []],
       Element ''subscription'' None [Element ''uuid'' (Some ''4f2a'') []]]"

text \<open>
  The same notification, well-formed, declared in a multi-byte encoding: \<open>ET.fromstring\<close>
  raises \<open>ValueError\<close> (multi-byte encodings are not supported), which is no
  \<open>ParseError\<close>.
\<close>

definition encoded_document :: string where
  "encoded_document =
     ''<?xml version='1.0' encoding='shift_jis'?><canceled_subscription_notification/>''"

text \<open>\<open>ET.fromstring\<close> on these two documents; any other text counts as malformed here.\<close>

definition example_parser :: "string \<Rightarrow> py_error + element" where
  "example_parser xml_body =
     (if xml_body = ''<canceled_subscription_notification/>'' then Inr example_notification
      else if xml_body = encoded_document then Inl ValueError
      else Inl ParseError)"

definition example_request :: "string option \<Rightarrow> string option \<Rightarrow> request" where
  "example_request user secret =
     \<lparr>auth_header = Some \<lparr>username = user, password = secret\<rparr>,
      get_data = ''<canceled_subscription_notification/>'',
      remote_addr = ''203.0.113.7''\<rparr>"

text \<open>Handlers that all raise.\<close>

definition raising_handlers :: "handler \<Rightarrow> element \<Rightarrow> py_error + log_record list" where
  "raising_handlers h root = Inl RuntimeError"

text \<open>
  Provider clients: one whose account has no active subscription and whose creation of
  a subscription is declined with a 3-D-Secure challenge, one with an active
  subscription that every operation returns.
\<close>

definition example_subscription :: subscription where
  "example_subscription = \<lparr>
     sub_id = ''sub-1'', sub_uuid = ''4f2a'', sub_state = ''active'',
     sub_plan = Some (''classic-monthly'', ''Classic Bouquet''),
     sub_unit_amount = JInt 50, sub_currency = ''USD'',
     sub_current_period_started_at = None, sub_current_period_ends_at = None,
     sub_activated_at = None, sub_expires_at = None, sub_paused_at = None,
     sub_account_code = ''jane-example.com''\<rparr>"

definition challenge :: recurly_exn where
  "challenge = \<lparr>exn_class = TransactionError, exn_str = ''Your card requires authentication.'',
     exn_params = Some [JDict [(''three_d_secure_action_token_id'', JStr ''tok3ds'')]]\<rparr>"

definition not_found :: recurly_exn where
  "not_found = \<lparr>exn_class = NotFoundError, exn_str = ''not found'', exn_params = None\<rparr>"

definition declining_client :: client where
  "declining_client = \<lparr>
     sdk_create_subscription = (\<lambda>b. Inl challenge),
     sdk_get_account = (\<lambda>a. Inl not_found),
     sdk_list_account_subscriptions = (\<lambda>a p. Inr []),
     sdk_pause_subscription = (\<lambda>i b. Inl not_found),
     sdk_cancel_subscription = (\<lambda>i. Inl not_found),
     sdk_terminate_subscription = (\<lambda>i p. Inl not_found),
     sdk_update_subscription = (\<lambda>i b. Inl not_found),
     sdk_update_billing_info = (\<lambda>a b. Inl not_found),
     sdk_list_account_invoices = (\<lambda>a p. Inr [])\<rparr>"

definition active_client :: client where
  "active_client = \<lparr>
     sdk_create_subscription = (\<lambda>b. Inr example_subscription),
     sdk_get_account = (\<lambda>a. Inl not_found),
     sdk_list_account_subscriptions = (\<lambda>a p. Inr [example_subscription]),
     sdk_pause_subscription = (\<lambda>i b. Inr example_subscription),
     sdk_cancel_subscription = (\<lambda>i. Inr example_subscription),
     sdk_terminate_subscription = (\<lambda>i p. Inr example_subscription),
     sdk_update_subscription = (\<lambda>i b. Inr example_subscription),
     sdk_update_billing_info = (\<lambda>a b. Inr ()),
     sdk_list_account_invoices = (\<lambda>a p. Inr [])\<rparr>"

definition no_date :: "string \<Rightarrow> string option" where
  "no_date s = None"

section \<open>Notions used in the statements\<close>

text \<open>The five required top-level keys.\<close>

definition top_level_keys :: "string list" where
  "top_level_keys = [''recurly_token'', ''plan_code'', ''first_name'', ''last_name'', ''email'']"

text \<open>
  Two messages report the same finding: they are equal, or they are the two wordings
  of a missing address field or of an unknown state.
\<close>

definition same_finding :: "string \<Rightarrow> string \<Rightarrow> bool" where
  "same_finding backend serverless =
     (backend = serverless
      \<or> (\<exists>key. backend = required_msg key
                \<and> serverless = '''address.'' @ key @ ''' is required.'')
      \<or> (\<exists>st. backend = state_msg st \<and> serverless = state_msg_serverless st))"

text \<open>
  The lookup of the active subscription as the provider sees it: the listing of the
  subscriptions of \<open>code-<account code>\<close> with \<open>state=active\<close> and \<open>limit=1\<close>, and what
  the client answers to it.
\<close>

definition lookup_call :: "string \<Rightarrow> call" where
  "lookup_call code =
     ListAccountSubscriptions (''code-'' @ code) [(''state'', JStr ''active''), (''limit'', JInt 1)]"

definition active_listing :: "client \<Rightarrow> string \<Rightarrow> recurly_exn + subscription list" where
  "active_listing c code =
     sdk_list_account_subscriptions c (''code-'' @ code)
       [(''state'', JStr ''active''), (''limit'', JInt 1)]"

text \<open>
  What the three mutating endpoints read from the request before the lookup: the number
  of cycles, the flag of the cancellation, the new plan code.
\<close>

definition pause_cycles :: "json \<Rightarrow> py_error + int" where
  "pause_cycles body =
     and_then (py_get (or_else body (JDict [])) ''remaining_pause_cycles'' (JInt 1)) py_int"

definition cancel_flag :: "json \<Rightarrow> py_error + json" where
  "cancel_flag body = py_get (or_else body (JDict [])) ''at_end_of_billing_period'' (JBool True)"

definition new_plan_code :: "json \<Rightarrow> py_error + json" where
  "new_plan_code body = stripped_field (or_else body (JDict [])) ''plan_code''"

text \<open>The subscription a call acts on.\<close>

fun call_subscription :: "call \<Rightarrow> string option" where
  "call_subscription (PauseSubscription i b) = Some i"
| "call_subscription (CancelSubscription i) = Some i"
| "call_subscription (TerminateSubscription i p) = Some i"
| "call_subscription (UpdateSubscription i b) = Some i"
| "call_subscription c = None"

text \<open>The answers of an endpoint without a client and of one without an active subscription.\<close>

definition unavailable :: "string \<Rightarrow> response" where
  "unavailable msg = \<lparr>status = 503,
     content = Json (JDict [(''success'', JBool False), (''message'', JStr msg)]),
     headers = []\<rparr>"

definition nothing_active :: response where
  "nothing_active = \<lparr>status = 404,
     content = Json (JDict [(''success'', JBool False),
                            (''message'', JStr ''No active subscription found'')]),
     headers = []\<rparr>"

section \<open>Account code derivation\<close>

lemma lower_char_code_char: "code_char c \<Longrightarrow> lower_char c = c"
  by (auto simp: code_char_def lower_char_def Let_def)

lemma code_char_replaced: "code_char (if code_char c then c else CHR ''-'')"
  by (simp add: code_char_def)

lemma account_code_spec: "account_code_from_email e = spec_account_code e"
  by (simp add: account_code_from_email_def spec_account_code_def re_sub_unsafe_def
      str_lower_def take_map comp_def)

lemma account_code_chars: "list_all code_char (account_code_from_email e)"
proof -
  have dash: "code_char CHR ''-''"
    by (simp add: code_char_def)
  have "list_all code_char (re_sub_unsafe s)" for s
    by (induction s) (simp_all add: re_sub_unsafe_def dash)
  then show ?thesis
    unfolding account_code_from_email_def Let_def list_all_iff
    by (meson in_set_takeD)
qed

lemma account_code_idem:
  "account_code_from_email (account_code_from_email e) = account_code_from_email e"
  by (simp add: account_code_from_email_def re_sub_unsafe_def str_lower_def take_map
      lower_char_code_char code_char_replaced cong: map_cong)

text \<open>
  C5. The account code is a function of the email alone: it is the email in lower case,
  every character outside \<open>[a-z0-9._-]\<close> replaced with \<open>-\<close>, cut to 50 characters, in
  the backend and in the serverless function alike. Hence it holds characters of
  \<open>[a-z0-9._-]\<close> only, is at most 50 long, equal emails give equal codes, and deriving
  the code of a code gives that code back.
\<close>

theorem account_code_derivation:
  "account_code_from_email e = spec_account_code e
   \<and> account_code_from_email_serverless e = spec_account_code e
   \<and> list_all code_char (account_code_from_email e)
   \<and> length (account_code_from_email e) \<le> 50
   \<and> (e = e' \<longrightarrow> account_code_from_email e = account_code_from_email e')
   \<and> account_code_from_email (account_code_from_email e) = account_code_from_email e"
proof -
  have "account_code_from_email_serverless e = account_code_from_email e"
    by (simp add: account_code_from_email_serverless_def account_code_from_email_def)
  moreover have "length (account_code_from_email e) \<le> 50"
    by (simp add: account_code_from_email_def)
  ultimately show ?thesis
    using account_code_spec [of e] account_code_chars [of e] account_code_idem [of e]
    by simp
qed

theorem account_code_derivation_witness:
  "account_code_from_email example_email = ''jane.o-brien-test-example.com''
   \<and> list_all code_char ''jane.o-brien-test-example.com''
   \<and> account_code_from_email ''jane.o-brien-test-example.com'' = ''jane.o-brien-test-example.com''
   \<and> length (account_code_from_email (replicate 60 CHR ''A'')) \<le> 50"
proof -
  have run: "account_code_from_email example_email = ''jane.o-brien-test-example.com''"
    by code_simp
  note at_example = account_code_derivation [of example_email example_email]
  note at_long = account_code_derivation [of "replicate 60 CHR ''A''" "replicate 60 CHR ''A''"]
  have "list_all code_char (account_code_from_email example_email)"
    using at_example by blast
  moreover have "account_code_from_email (account_code_from_email example_email)
                 = account_code_from_email example_email"
    using at_example by blast
  moreover have "length (account_code_from_email (replicate 60 CHR ''A'')) \<le> 50"
    using at_long by blast
  ultimately show ?thesis
    unfolding run using run by blast
qed

section \<open>Validators\<close>

lemma validate_non_dict:
  "\<forall>d. x \<noteq> JDict d \<Longrightarrow>
   validate_subscription_payload x = Inr [''Request body must be a JSON object.'']
   \<and> validate_serverless x = Inl AttributeError"
  by (cases x) (simp_all add: validate_serverless_def validate_subscription_payload_def)

text \<open>
  C2. The claim says that the validator returns a list of errors for every value and
  never raises. It raises on values that are not strings: \<open>TypeError\<close> for a number as
  email (from \<open>re.match\<close>) and for a list as plan code (from the set membership),
  \<open>AttributeError\<close> for a number as state (from \<open>upper\<close>); so does \<open>_validate\<close>, which
  also raises on a body that is not a dict.
\<close>

theorem validator_raises_on_non_strings:
  "validate_subscription_payload (JDict [(''email'', JInt 5)]) = Inl TypeError
   \<and> validate_subscription_payload (JDict [(''plan_code'', JList [JStr ''1399''])])
       = Inl TypeError
   \<and> validate_subscription_payload (JDict [(''address'', JDict [(''state'', JInt 5)])])
       = Inl AttributeError
   \<and> validate_serverless (JDict [(''email'', JInt 5)]) = Inl TypeError
   \<and> validate_serverless (JList []) = Inl AttributeError"
  by code_simp

subsection \<open>Required fields\<close>

lemma required_msg_inj: "required_msg k = required_msg k' \<longleftrightarrow> k = k'"
  by (simp add: required_msg_def)

lemma count_required:
  "distinct ks \<Longrightarrow> count_list (required d ks) (required_msg k)
     = (if k \<in> set ks \<and> missing (dict_get d k (JStr [])) then 1 else 0)"
  by (induction ks) (auto simp: required_msg_inj)

lemma other_messages:
  assumes "k \<in> set top_level_keys"
  shows "required_msg k \<noteq> email_msg" "required_msg k \<noteq> address_msg"
    "required_msg k \<noteq> zip_msg" "required_msg k \<noteq> plan_code_msg p"
    "required_msg k \<noteq> state_msg s"
    "k \<notin> set [''address1'', ''city'', ''state'', ''zip'']"
  using assms
  by (auto simp: top_level_keys_def required_msg_def email_msg_def address_msg_def zip_msg_def
      plan_code_msg_def state_msg_def)

lemma other_messages_sym:
  assumes "k \<in> set top_level_keys"
  shows "email_msg \<noteq> required_msg k" "address_msg \<noteq> required_msg k"
    "zip_msg \<noteq> required_msg k" "plan_code_msg p \<noteq> required_msg k"
    "state_msg s \<noteq> required_msg k"
  using other_messages [OF assms] by (simp_all add: not_sym)

lemma count_check_email:
  "k \<in> set top_level_keys \<Longrightarrow> check_email x = Inr e \<Longrightarrow> count_list e (required_msg k) = 0"
  using other_messages(1) [of k] other_messages_sym(1) [of k]
  by (auto simp: check_email_def split: if_splits json.splits)

lemma count_check_plan_code:
  "k \<in> set top_level_keys \<Longrightarrow> check_plan_code x = Inr e \<Longrightarrow> count_list e (required_msg k) = 0"
  using other_messages(4) [of k] other_messages_sym(4) [of k]
  by (auto simp: check_plan_code_def split: if_splits json.splits)

lemma count_check_address:
  assumes "k \<in> set top_level_keys" and "check_address x = Inr e"
  shows "count_list e (required_msg k) = 0"
proof (cases x)
  case (JDict a)
  have req: "count_list (required a [''address1'', ''city'', ''state'', ''zip'']) (required_msg k) = 0"
    using other_messages(6) [OF assms(1)] by (subst count_required) simp_all
  have zip: "count_list (check_zip z) (required_msg k) = 0" for z
    using other_messages(3) [OF assms(1)] other_messages_sym(3) [OF assms(1)]
    by (simp add: check_zip_def)
  have st: "check_state z = Inr e' \<Longrightarrow> count_list e' (required_msg k) = 0" for z e'
    using other_messages(5) [OF assms(1)] other_messages_sym(5) [OF assms(1)]
    by (auto simp: check_state_def split: if_splits json.splits)
  show ?thesis
    using assms(2) req zip st
    by (auto simp: JDict check_address_def and_then_def Let_def split: sum.splits
        simp del: required.simps)
next
qed (use assms other_messages(2) [of k] other_messages_sym(2) [of k] in
      \<open>auto simp: check_address_def\<close>)

text \<open>
  What the validator does whenever it returns: for each of the five required keys the
  list holds its message once if the field is absent, not a string or blank, and not
  at all otherwise.
\<close>

lemma required_messages_when_returned:
  assumes "validate_subscription_payload (JDict d) = Inr errs"
    and "k \<in> set top_level_keys"
  shows "count_list errs (required_msg k) = (if missing (dict_get d k (JStr [])) then 1 else 0)"
proof -
  have "count_list (required d top_level_keys) (required_msg k)
        = (if missing (dict_get d k (JStr [])) then 1 else 0)"
    using assms(2) by (subst count_required) (simp_all add: top_level_keys_def)
  then show ?thesis
    using assms count_check_email [of k] count_check_plan_code [of k] count_check_address [of k]
    by (auto simp: validate_subscription_payload_def and_then_def Let_def
        top_level_keys_def [symmetric] split: sum.splits simp del: required.simps)
qed

text \<open>
  C3. The claim says that a payload with a required field that is absent, not a string
  or blank gets a list with one message for that field. With every other field valid
  and the number 42 as email, the validator returns no list: it raises \<open>TypeError\<close>.
\<close>

theorem number_as_email_raises:
  "missing (dict_get (example_fields (JInt 42) example_address) ''email'' (JStr []))
   \<and> validate_subscription_payload (example_payload (JInt 42)) = Inl TypeError"
  by code_simp

subsection \<open>Email format\<close>

text \<open>
  C4, as stated, fails at the empty email: it does not match the pattern, and the list
  that is returned does not hold the email-format message.
\<close>

theorem empty_email_counterexample:
  "\<not> re_match_anchored email_re []
   \<and> \<not> isl (validate_subscription_payload (example_payload (JStr [])))
   \<and> email_msg \<notin> set (projr (validate_subscription_payload (example_payload (JStr []))))"
  by code_simp

text \<open>
  C4, amended. For every payload whose email is a non-empty string that does not match
  the pattern, every list the validator returns holds the email-format message, in the
  backend and in the serverless function; and where no list is returned, the exception
  comes from the check of the plan code or of the address.
\<close>

theorem email_format_error:
  assumes "map_of d ''email'' = Some (JStr e)" and "e \<noteq> []"
    and "\<not> re_match_anchored email_re e"
  shows "(validate_subscription_payload (JDict d) = Inr errs \<longrightarrow> email_msg \<in> set errs)
       \<and> (validate_serverless (JDict d) = Inr errs' \<longrightarrow> email_msg \<in> set errs')
       \<and> (validate_subscription_payload (JDict d) = Inl x \<longrightarrow>
            check_plan_code (dict_get d ''plan_code'' (JStr [])) = Inl x
            \<or> check_address (dict_get d ''address'' JNull) = Inl x)"
proof -
  have "check_email (dict_get d ''email'' (JStr [])) = Inr [email_msg]"
    using assms by (simp add: check_email_def dict_get_def)
  then show ?thesis
    by (auto simp: validate_subscription_payload_def validate_serverless_def and_then_def
        Let_def split: sum.splits)
qed

theorem email_format_error_witness:
  "map_of (example_fields (JStr ''jane@example'') example_address) ''email''
     = Some (JStr ''jane@example'')
   \<and> ''jane@example'' \<noteq> []
   \<and> \<not> re_match_anchored email_re ''jane@example''
   \<and> validate_subscription_payload (example_payload (JStr ''jane@example'')) = Inr [email_msg]
   \<and> email_msg \<in> set [email_msg]"
proof -
  have field: "map_of (example_fields (JStr ''jane@example'') example_address) ''email''
                 = Some (JStr ''jane@example'')"
    by code_simp
  have no_match: "\<not> re_match_anchored email_re ''jane@example''"
    by code_simp
  have run: "validate_subscription_payload (JDict (example_fields (JStr ''jane@example'')
               example_address)) = Inr [email_msg]"
    by code_simp
  have "email_msg \<in> set [email_msg]"
    using email_format_error [OF field _ no_match, of "[email_msg]"] run by simp
  then show ?thesis
    using field no_match run by (simp add: example_payload_def)
qed

lemma email_msg_not_required: "email_msg \<notin> set (required d ks)"
  by (induction ks) (auto simp: email_msg_def required_msg_def)

lemma email_msg_not_in_plan: "check_plan_code x = Inr e \<Longrightarrow> email_msg \<notin> set e"
  by (auto simp: check_plan_code_def email_msg_def plan_code_msg_def
      split: if_splits json.splits)

lemma email_msg_not_in_address: "check_address x = Inr e \<Longrightarrow> email_msg \<notin> set e"
proof (cases x)
  case (JDict a)
  assume r: "check_address x = Inr e"
  have st: "check_state z = Inr e' \<Longrightarrow> email_msg \<notin> set e'" for z e'
    by (auto simp: check_state_def email_msg_def state_msg_def split: if_splits json.splits)
  have zip: "email_msg \<notin> set (check_zip z)" for z
    by (simp add: check_zip_def email_msg_def zip_msg_def)
  show ?thesis
    using r st zip email_msg_not_required [of a]
    by (auto simp: JDict check_address_def and_then_def Let_def split: sum.splits
        simp del: required.simps)
qed (auto simp: check_address_def email_msg_def address_msg_def)

text \<open>
  An empty email, in every payload: a list that is returned holds no email-format
  message, and \<open>'email' is required.\<close> once.
\<close>

lemma empty_email_reported_as_required:
  assumes "map_of d ''email'' = Some (JStr [])"
    and "validate_subscription_payload (JDict d) = Inr errs"
  shows "email_msg \<notin> set errs \<and> count_list errs (required_msg ''email'') = 1"
proof -
  have blank: "missing (dict_get d ''email'' (JStr []))"
    using assms(1) by (simp add: dict_get_def missing_def str_strip_def)
  have none: "check_email (dict_get d ''email'' (JStr [])) = Inr []"
    using assms(1) by (simp add: dict_get_def check_email_def)
  have "email_msg \<notin> set errs"
    using assms(2) none email_msg_not_required [of d] email_msg_not_in_plan
      email_msg_not_in_address
    by (auto simp: validate_subscription_payload_def and_then_def Let_def split: sum.splits
        simp del: required.simps)
  moreover have "count_list errs (required_msg ''email'') = 1"
    using required_messages_when_returned [OF assms(2), of "''email''"] blank
    by (simp add: top_level_keys_def)
  ultimately show ?thesis by simp
qed

subsection \<open>The two validators\<close>

lemma top_level_loop_required: "top_level_loop d ks = required d ks"
  by (induction ks) (simp_all add: required_msg_def)

lemma same_finding_refl: "list_all2 same_finding xs xs"
  by (simp add: list_all2_refl same_finding_def)

lemma address_loop_required: "list_all2 same_finding (required a ks) (address_loop a ks)"
  by (induction ks) (auto simp: same_finding_def)

lemma check_state_related:
  "rel_sum (=) (list_all2 same_finding) (check_state s) (check_state_serverless s)"
  by (cases s) (auto simp: check_state_serverless_def check_state_def same_finding_def)

lemma check_address_related:
  "rel_sum (=) (list_all2 same_finding) (check_address a) (check_address_serverless a)"
proof (cases a)
  case (JDict kvs)
  show ?thesis
    using check_state_related [of "dict_get kvs ''state'' (JStr [])"]
    by (cases "check_state (dict_get kvs ''state'' (JStr []))";
        cases "check_state_serverless (dict_get kvs ''state'' (JStr []))")
       (simp_all add: JDict check_address_serverless_def check_address_def and_then_def
          address_loop_required same_finding_refl list_all2_appendI
          del: required.simps address_loop.simps)
qed (simp_all add: check_address_serverless_def check_address_def same_finding_def)

lemma check_address_not_dict:
  "\<forall>a. x \<noteq> JDict a \<Longrightarrow> check_address_serverless x = check_address x"
  by (cases x) (simp_all add: check_address_serverless_def check_address_def)

lemma validators_related:
  "rel_sum (=) (list_all2 same_finding)
     (validate_subscription_payload (JDict d)) (validate_serverless (JDict d))"
  using check_address_related [of "dict_get d ''address'' JNull"]
  by (cases "check_address (dict_get d ''address'' JNull)";
      cases "check_address_serverless (dict_get d ''address'' JNull)")
     (simp_all add: validate_serverless_def validate_subscription_payload_def and_then_def
        top_level_loop_required Let_def same_finding_refl list_all2_appendI
        del: required.simps top_level_loop.simps split: sum.splits)

text \<open>
  C10, as stated, fails at a payload whose address is an empty object: both validators
  return a list, and the lists differ (\<open>'address1' is required.\<close> in the backend,
  \<open>'address.address1' is required.\<close> in the serverless function).
\<close>

theorem validators_differ_counterexample:
  "\<not> isl (validate_subscription_payload
            (JDict (example_fields (JStr ''jane@example.com'') (JDict []))))
   \<and> \<not> isl (validate_serverless
              (JDict (example_fields (JStr ''jane@example.com'') (JDict []))))
   \<and> validate_subscription_payload
        (JDict (example_fields (JStr ''jane@example.com'') (JDict [])))
      \<noteq> validate_serverless
          (JDict (example_fields (JStr ''jane@example.com'') (JDict [])))"
  by code_simp

text \<open>
  C10, amended. On every dict the two validators raise the same exception or return
  lists of the same length that report the same findings position by position: the
  messages are equal except for the wording of a missing address field and of an
  unknown state. The lists are equal whenever \<open>address\<close> is not an object.
\<close>

theorem validators_agree_up_to_wording:
  "rel_sum (=) (list_all2 same_finding)
     (validate_subscription_payload (JDict d)) (validate_serverless (JDict d))
   \<and> ((\<forall>a. dict_get d ''address'' JNull \<noteq> JDict a) \<longrightarrow>
        validate_serverless (JDict d) = validate_subscription_payload (JDict d))"
proof (intro conjI impI)
  show "rel_sum (=) (list_all2 same_finding)
          (validate_subscription_payload (JDict d)) (validate_serverless (JDict d))"
    by (rule validators_related)
next
  assume "\<forall>a. dict_get d ''address'' JNull \<noteq> JDict a"
  then show "validate_serverless (JDict d) = validate_subscription_payload (JDict d)"
    by (simp add: validate_serverless_def validate_subscription_payload_def
        top_level_loop_required check_address_not_dict)
qed

theorem validators_agree_up_to_wording_witness:
  "(\<forall>a. dict_get (example_fields (JStr ''jane@example'') JNull) ''address'' JNull \<noteq> JDict a)
   \<and> validate_serverless (JDict (example_fields (JStr ''jane@example'') JNull))
       = Inr [email_msg, address_msg]
   \<and> validate_subscription_payload (JDict (example_fields (JStr ''jane@example'') JNull))
       = Inr [email_msg, address_msg]"
proof -
  have field: "dict_get (example_fields (JStr ''jane@example'') JNull) ''address'' JNull = JNull"
    by code_simp
  have run: "validate_serverless (JDict (example_fields (JStr ''jane@example'') JNull))
               = Inr [email_msg, address_msg]"
    by code_simp
  have "validate_serverless (JDict (example_fields (JStr ''jane@example'') JNull))
          = validate_subscription_payload (JDict (example_fields (JStr ''jane@example'') JNull))"
    using validators_agree_up_to_wording [of "example_fields (JStr ''jane@example'') JNull"]
    by (simp add: field)
  then show ?thesis
    using run by (simp add: field)
qed

section \<open>Webhook receiver\<close>

lemma invoked_logs: "invoked (map Log records) = []"
  by (induction records) simp_all

lemma admitted_runs_view:
  assumes "admitted env req"
  shows "fst (check_basic_auth env f req) = fst (f req)
       \<and> invoked (snd (check_basic_auth env f req)) = invoked (snd (f req))"
  using assms
  by (auto simp: admitted_def check_basic_auth_def Let_def split_beta
      split: option.splits if_splits)

lemma recurly_webhook_handled:
  assumes "xml_body \<noteq> []" and "fromstring xml_body = Inr root"
  shows "fst (recurly_webhook fromstring run xml_body) = Inr (respond 200 (Text []))
       \<and> invoked (snd (recurly_webhook fromstring run xml_body))
           = (case map_of HANDLERS (elem_tag root) of None \<Rightarrow> [] | Some h \<Rightarrow> [h])"
  using assms
  by (auto simp: recurly_webhook_def Let_def invoked_logs split: option.splits sum.splits)

text \<open>The table has ten event types, each with a handler of its own.\<close>

lemma handlers_table:
  "length HANDLERS = 10 \<and> distinct (map fst HANDLERS) \<and> distinct (map snd HANDLERS)"
  by (simp add: HANDLERS_def)

text \<open>The table, tag by tag; any other tag has no handler.\<close>

lemma dispatch_table:
  "map_of HANDLERS ''new_subscription_notification'' = Some H_new_subscription"
  "map_of HANDLERS ''updated_subscription_notification'' = Some H_updated_subscription"
  "map_of HANDLERS ''canceled_subscription_notification'' = Some H_canceled_subscription"
  "map_of HANDLERS ''expired_subscription_notification'' = Some H_expired_subscription"
  "map_of HANDLERS ''renewed_subscription_notification'' = Some H_renewed_subscription"
  "map_of HANDLERS ''reactivated_subscription_notification'' = Some H_reactivated_subscription"
  "map_of HANDLERS ''billing_info_updated_notification'' = Some H_billing_info_updated"
  "map_of HANDLERS ''failed_payment_notification'' = Some H_failed_payment"
  "map_of HANDLERS ''successful_payment_notification'' = Some H_successful_payment"
  "map_of HANDLERS ''new_invoice_notification'' = Some H_new_invoice"
  "t \<notin> set [''new_subscription_notification'', ''updated_subscription_notification'',
       ''canceled_subscription_notification'', ''expired_subscription_notification'',
       ''renewed_subscription_notification'', ''reactivated_subscription_notification'',
       ''billing_info_updated_notification'', ''failed_payment_notification'',
       ''successful_payment_notification'', ''new_invoice_notification'']
   \<Longrightarrow> map_of HANDLERS t = None"
  by (simp_all add: HANDLERS_def)

text \<open>
  What holds once \<open>ET.fromstring\<close> has returned a root element: a request that the
  decorator lets through, with a non-empty body, is answered with 200 whatever the
  handlers do; when the root tag is in the table, the handler of that tag is the one
  handler invoked, whether it returns or raises; when it is not, no handler is invoked.
\<close>

lemma parsed_body_acknowledged:
  assumes "admitted env req" and "get_data req \<noteq> []"
    and "fromstring (get_data req) = Inr root"
  shows "fst (webhook_endpoint env fromstring run req) = Inr (respond 200 (Text []))
       \<and> status (respond 200 (Text [])) = 200
       \<and> invoked (snd (webhook_endpoint env fromstring run req))
           = (case map_of HANDLERS (elem_tag root) of None \<Rightarrow> [] | Some h \<Rightarrow> [h])"
  unfolding webhook_endpoint_def
  using admitted_runs_view [OF assms(1)]
    recurly_webhook_handled [of "get_data req" fromstring root run, OF assms(2,3)]
  by (simp add: respond_def)

lemma canceled_notification_acknowledged:
  assumes "admitted env req" and "get_data req \<noteq> []"
    and "fromstring (get_data req) = Inr root"
    and "elem_tag root = ''canceled_subscription_notification''"
  shows "fst (webhook_endpoint env fromstring run req) = Inr (respond 200 (Text []))
       \<and> invoked (snd (webhook_endpoint env fromstring run req)) = [H_canceled_subscription]"
  using parsed_body_acknowledged [where fromstring = fromstring and run = run, OF assms(1-3)]
    assms(4)
  by (simp add: dispatch_table(3))

text \<open>
  An exception of the parser that is no \<open>ParseError\<close> leaves the view function: no
  handler is invoked and no answer is given by the function.
\<close>

lemma parser_exception_escapes:
  assumes "admitted env req" and "get_data req \<noteq> []"
    and "fromstring (get_data req) = Inl e" and "e \<noteq> ParseError"
  shows "fst (webhook_endpoint env fromstring run req) = Inl e
       \<and> invoked (snd (webhook_endpoint env fromstring run req)) = []"
proof -
  have "recurly_webhook fromstring run (get_data req) = (Inl e, [ParseBody])"
    using assms(2-4) by (cases e) (simp_all add: recurly_webhook_def)
  then show ?thesis
    unfolding webhook_endpoint_def
    using admitted_runs_view [OF assms(1), of "\<lambda>r. recurly_webhook fromstring run (get_data r)"]
    by simp
qed

text \<open>
  C1. The claim says that an authenticated request with a well-formed, non-empty XML
  body is answered with 200 and that the handler of its root tag is invoked. With the
  right credentials and the cancellation notification declared in the encoding
  \<open>shift_jis\<close>, \<open>ET.fromstring\<close> raises \<open>ValueError\<close>; the view function catches
  \<open>ParseError\<close> only, so the exception leaves it: Flask answers 500 and no handler is
  invoked.
\<close>

theorem unsupported_encoding_raises:
  "admitted example_env
     ((example_request (Some ''recurly'') (Some ''s3cret'')) \<lparr>get_data := encoded_document\<rparr>)
   \<and> encoded_document \<noteq> []
   \<and> webhook_endpoint example_env example_parser stub_handlers
        ((example_request (Some ''recurly'') (Some ''s3cret'')) \<lparr>get_data := encoded_document\<rparr>)
       = (Inl ValueError, [ParseBody])
   \<and> status (flask (fst (webhook_endpoint example_env example_parser stub_handlers
        ((example_request (Some ''recurly'') (Some ''s3cret''))
           \<lparr>get_data := encoded_document\<rparr>)))) = 500
   \<and> invoked (snd (webhook_endpoint example_env example_parser stub_handlers
        ((example_request (Some ''recurly'') (Some ''s3cret''))
           \<lparr>get_data := encoded_document\<rparr>))) = []"
  by code_simp

text \<open>
  The three refusals when all four strings are ASCII: no secret outside development
  gives 503, no credentials give 401, a wrong user name or password gives 403; the
  body is not parsed and no handler is invoked.
\<close>

lemma webhook_rejections:
  "environ_get (RECURLY_WEBHOOK_SECRET env) [] = [] \<and> FLASK_ENV env \<noteq> Some ''development''
     \<longrightarrow> webhook_endpoint env fromstring run req
           = (Inr (respond 503 (Json (JDict [(''error'', JStr ''Webhook auth not configured'')]))),
              [])"
  "environ_get (RECURLY_WEBHOOK_SECRET env) [] \<noteq> [] \<and> auth_header req = None
     \<longrightarrow> (\<exists>r. fst (webhook_endpoint env fromstring run req) = Inr r \<and> status r = 401)
         \<and> snd (webhook_endpoint env fromstring run req) = []"
  "environ_get (RECURLY_WEBHOOK_SECRET env) [] \<noteq> [] \<and> auth_header req = Some a
     \<and> isascii (or_empty (username a)) \<and> isascii (or_empty (password a))
     \<and> isascii (environ_get (RECURLY_WEBHOOK_USER env) ''recurly'')
     \<and> isascii (environ_get (RECURLY_WEBHOOK_SECRET env) [])
     \<and> (or_empty (username a) \<noteq> environ_get (RECURLY_WEBHOOK_USER env) ''recurly''
        \<or> or_empty (password a) \<noteq> environ_get (RECURLY_WEBHOOK_SECRET env) [])
     \<longrightarrow> fst (webhook_endpoint env fromstring run req) = Inr (respond 403 (Text ''Forbidden''))
         \<and> \<not> parsed (snd (webhook_endpoint env fromstring run req))
         \<and> invoked (snd (webhook_endpoint env fromstring run req)) = []"
  by (auto simp: webhook_endpoint_def check_basic_auth_def compare_digest_def parsed_def Let_def)

text \<open>
  C7. The claim says that credentials that do not match are refused with 403. With the
  secret \<open>s3cret\<close> configured and the user name \<open>U+00E9\<close> in the request,
  \<open>hmac.compare_digest\<close> raises \<open>TypeError\<close>, which nothing catches: the answer is
  Flask's 500. The body is not parsed and no handler runs.
\<close>

theorem non_ascii_credentials_raise:
  "webhook_endpoint example_env example_parser stub_handlers
     (example_request (Some [CHR 0xE9]) (Some ''s3cret'')) = (Inl TypeError, [])
   \<and> status (flask (fst (webhook_endpoint example_env example_parser stub_handlers
                 (example_request (Some [CHR 0xE9]) (Some ''s3cret''))))) = 500"
  by code_simp

section \<open>Endpoints without a client\<close>

text \<open>
  C6. Without a client every account endpoint and the subscription endpoint answer 503
  with \<open>success: false\<close> and make no call on the provider, whatever the request; the
  serverless function does the same when the API key is unset or empty. The backend
  has no client when the key is unset or empty.
\<close>

theorem unconfigured_client:
  "module_client None connect = None
   \<and> module_client (Some []) connect = None
   \<and> get_account None code = (Inr (unavailable ''Recurly not configured''), [])
   \<and> list_subscriptions None code = (Inr (unavailable ''Recurly not configured''), [])
   \<and> pause_subscription None code data = (Inr (unavailable ''Recurly not configured''), [])
   \<and> cancel_subscription None code data = (Inr (unavailable ''Recurly not configured''), [])
   \<and> change_plan None code data = (Inr (unavailable ''Recurly not configured''), [])
   \<and> update_billing None code data = (Inr (unavailable ''Recurly not configured''), [])
   \<and> list_invoices None code = (Inr (unavailable ''Recurly not configured''), [])
   \<and> create_subscription None strptime data
       = (Inr (unavailable ''Recurly API key not configured. See .env.example.''), [])
   \<and> do_POST None connect json_loads strptime req
       = (Inr ((unavailable ''Recurly API key not configured.'') \<lparr>headers := cors_headers\<rparr>), [])
   \<and> do_POST (Some []) connect json_loads strptime req
       = (Inr ((unavailable ''Recurly API key not configured.'') \<lparr>headers := cors_headers\<rparr>), [])"
  by (simp add: module_client_def get_client_def environ_get_def unavailable_def
      get_account_def list_subscriptions_def pause_subscription_def cancel_subscription_def
      change_plan_def update_billing_def list_invoices_def create_subscription_def
      not_configured_def failure_def jsonify_def respond_def do_POST_def
      get_client_serverless_def failure_json_def respond_json_def)

section \<open>Transaction failures\<close>

text \<open>
  The backend: a transaction failure of the provider is answered with 402, and a token
  found in the error is part of the answer.
\<close>

lemma backend_transaction_error:
  assumes "validate_subscription_payload data = Inr []"
    and "and_then (as_dict data) (request_to_provider strptime) = Inr request_body"
    and "sdk_create_subscription c request_body = Inl e"
    and "exn_class e = TransactionError"
  shows "\<exists>r. create_subscription (Some c) strptime data
               = (Inr r, [CreateSubscription request_body])
       \<and> status r = 402
       \<and> (truthy (tds_token e) \<longrightarrow>
            (\<exists>d. content r = Json (JDict d)
                 \<and> map_of d ''three_d_secure_action_token_id'' = Some (tds_token e)))"
proof -
  have "data \<noteq> JNull"
    using assms(1) by (auto simp: validate_subscription_payload_def)
  then show ?thesis
    using assms
    by (simp add: create_subscription_def create_errors_def Let_def failure_def jsonify_def
        respond_def)
qed

text \<open>
  C8. The claim says that the subscription endpoint answers a transaction failure with
  402 and passes a 3-D-Secure token of the error on as
  \<open>three_d_secure_action_token_id\<close>. The backend does; the serverless function answers
  402 with the message only, and the token is lost.
\<close>

theorem serverless_drops_challenge_token:
  "tds_token challenge = JStr ''tok3ds''
   \<and> fst (create_subscription (Some declining_client) no_date
            (example_payload (JStr ''jane@example.com'')))
       = Inr \<lparr>status = 402,
              content = Json (JDict [
                (''success'', JBool False),
                (''three_d_secure_action_token_id'', JStr ''tok3ds''),
                (''message'', JStr ''Card authentication required.'')]),
              headers = []\<rparr>
   \<and> fst (do_POST (Some ''key'') (\<lambda>k. declining_client)
            (\<lambda>raw. Some (example_payload (JStr ''jane@example.com''))) no_date
            \<lparr>content_length = Some ''2'', rfile = ''{}''\<rparr>)
       = Inr \<lparr>status = 402,
              content = Json (JDict [
                (''success'', JBool False),
                (''message'', JStr ''Your card requires authentication.'')]),
              headers = cors_headers\<rparr>"
  by code_simp

section \<open>The active subscription\<close>

lemma active_lookup:
  "get_active_subscription c code =
     (case sdk_list_account_subscriptions c (''code-'' @ code) active_params of
        Inl e \<Rightarrow> Inl e
      | Inr subs \<Rightarrow> Inr (case subs of [] \<Rightarrow> None | sub # rest \<Rightarrow> Some sub),
      [ListAccountSubscriptions (''code-'' @ code) active_params])"
  by (simp add: get_active_subscription_def Let_def)

lemma nothing_active_answer: "no_active_subscription = nothing_active"
  by (simp add: no_active_subscription_def nothing_active_def failure_def jsonify_def
      respond_def)

lemma pause_targets:
  fixes c code data
  defines "listing \<equiv> sdk_list_account_subscriptions c (''code-'' @ code) active_params"
  defines "result \<equiv> pause_subscription (Some c) code data"
  shows "(snd result \<noteq> [] \<longrightarrow>
            hd (snd result) = ListAccountSubscriptions (''code-'' @ code) active_params)
       \<and> (\<forall>m \<in> set (snd result). mutation m \<longrightarrow>
            (\<exists>sub rest. listing = Inr (sub # rest) \<and> call_subscription m = Some (sub_id sub)))
       \<and> (listing = Inr [] \<longrightarrow>
            \<not> list_ex mutation (snd result)
            \<and> (snd result \<noteq> [] \<longrightarrow> fst result = Inr nothing_active))"
  unfolding listing_def result_def pause_subscription_def active_lookup nothing_active_answer
  by (auto simp: Let_def split: sum.splits list.splits option.splits)

lemma cancel_targets:
  fixes c code data
  defines "listing \<equiv> sdk_list_account_subscriptions c (''code-'' @ code) active_params"
  defines "result \<equiv> cancel_subscription (Some c) code data"
  shows "(snd result \<noteq> [] \<longrightarrow>
            hd (snd result) = ListAccountSubscriptions (''code-'' @ code) active_params)
       \<and> (\<forall>m \<in> set (snd result). mutation m \<longrightarrow>
            (\<exists>sub rest. listing = Inr (sub # rest) \<and> call_subscription m = Some (sub_id sub)))
       \<and> (listing = Inr [] \<longrightarrow>
            \<not> list_ex mutation (snd result)
            \<and> (snd result \<noteq> [] \<longrightarrow> fst result = Inr nothing_active))"
  unfolding listing_def result_def cancel_subscription_def active_lookup nothing_active_answer
  by (auto simp: Let_def split: sum.splits list.splits option.splits)

lemma change_plan_targets:
  fixes c code data
  defines "listing \<equiv> sdk_list_account_subscriptions c (''code-'' @ code) active_params"
  defines "result \<equiv> change_plan (Some c) code data"
  shows "(snd result \<noteq> [] \<longrightarrow>
            hd (snd result) = ListAccountSubscriptions (''code-'' @ code) active_params)
       \<and> (\<forall>m \<in> set (snd result). mutation m \<longrightarrow>
            (\<exists>sub rest. listing = Inr (sub # rest) \<and> call_subscription m = Some (sub_id sub)))
       \<and> (listing = Inr [] \<longrightarrow>
            \<not> list_ex mutation (snd result)
            \<and> (snd result \<noteq> [] \<longrightarrow> fst result = Inr nothing_active))"
  unfolding listing_def result_def change_plan_def active_lookup nothing_active_answer
  by (auto simp: Let_def split: sum.splits list.splits option.splits)

lemma lookup_is_first:
  "get_active_subscription c code =
     (case active_listing c code of
        Inl e \<Rightarrow> Inl e
      | Inr subs \<Rightarrow> Inr (case subs of [] \<Rightarrow> None | sub # rest \<Rightarrow> Some sub),
      [lookup_call code])"
  by (simp add: get_active_subscription_def active_listing_def lookup_call_def active_params_def
      Let_def)

lemma ok_status: "status (flask (Inr (jsonify d 200))) = 200"
  by (simp add: flask_def jsonify_def respond_def)

lemma pause_behaviour:
  "(pause_cycles body = Inl e \<longrightarrow> pause_subscription (Some c) code body = (Inl (Py e), []))
   \<and> (pause_cycles body = Inr n \<and> active_listing c code = Inr [] \<longrightarrow>
        pause_subscription (Some c) code body = (Inr nothing_active, [lookup_call code]))
   \<and> (pause_cycles body = Inr n \<and> active_listing c code = Inr (sub # rest) \<longrightarrow>
        snd (pause_subscription (Some c) code body)
          = [lookup_call code,
             PauseSubscription (sub_id sub) (JDict [(''remaining_pause_cycles'', JInt n)])]
        \<and> (sdk_pause_subscription c (sub_id sub) (JDict [(''remaining_pause_cycles'', JInt n)])
             = Inr updated \<longrightarrow>
             status (flask (fst (pause_subscription (Some c) code body))) = 200))
   \<and> (pause_cycles body = Inr n \<and> active_listing c code = Inl x \<longrightarrow>
        snd (pause_subscription (Some c) code body) = [lookup_call code])"
  unfolding pause_subscription_def lookup_is_first nothing_active_answer pause_cycles_def
  by (auto simp: Let_def ok_status split: sum.splits list.splits option.splits)

lemma cancel_behaviour:
  "(cancel_flag body = Inl e \<longrightarrow> cancel_subscription (Some c) code body = (Inl (Py e), []))
   \<and> (cancel_flag body = Inr flag \<and> active_listing c code = Inr [] \<longrightarrow>
        cancel_subscription (Some c) code body = (Inr nothing_active, [lookup_call code]))
   \<and> (cancel_flag body = Inr flag \<and> active_listing c code = Inr (sub # rest) \<longrightarrow>
        snd (cancel_subscription (Some c) code body)
          = [lookup_call code,
             if truthy flag then CancelSubscription (sub_id sub)
             else TerminateSubscription (sub_id sub) [(''refund'', JStr ''none'')]]
        \<and> ((if truthy flag then sdk_cancel_subscription c (sub_id sub)
             else sdk_terminate_subscription c (sub_id sub) [(''refund'', JStr ''none'')])
             = Inr updated \<longrightarrow>
             status (flask (fst (cancel_subscription (Some c) code body))) = 200))
   \<and> (cancel_flag body = Inr flag \<and> active_listing c code = Inl x \<longrightarrow>
        snd (cancel_subscription (Some c) code body) = [lookup_call code])"
  unfolding cancel_subscription_def lookup_is_first nothing_active_answer cancel_flag_def
  by (auto simp: Let_def ok_status split: sum.splits list.splits option.splits)

lemma change_plan_behaviour:
  "(new_plan_code body = Inl e \<longrightarrow> change_plan (Some c) code body = (Inl (Py e), []))
   \<and> (new_plan_code body = Inr p \<and> \<not> truthy p \<longrightarrow>
        snd (change_plan (Some c) code body) = []
        \<and> status (flask (fst (change_plan (Some c) code body))) = 422)
   \<and> (new_plan_code body = Inr p \<and> truthy p \<and> active_listing c code = Inr [] \<longrightarrow>
        change_plan (Some c) code body = (Inr nothing_active, [lookup_call code]))
   \<and> (new_plan_code body = Inr p \<and> truthy p \<and> active_listing c code = Inr (sub # rest) \<longrightarrow>
        snd (change_plan (Some c) code body)
          = [lookup_call code, UpdateSubscription (sub_id sub) (JDict [(''plan_code'', p)])]
        \<and> (sdk_update_subscription c (sub_id sub) (JDict [(''plan_code'', p)]) = Inr updated \<longrightarrow>
             status (flask (fst (change_plan (Some c) code body))) = 200))
   \<and> (new_plan_code body = Inr p \<and> truthy p \<and> active_listing c code = Inl x \<longrightarrow>
        snd (change_plan (Some c) code body) = [lookup_call code])"
  unfolding change_plan_def lookup_is_first nothing_active_answer new_plan_code_def
  by (auto simp: Let_def ok_status flask_def failure_def jsonify_def respond_def
      split: sum.splits list.splits option.splits)

text \<open>
  Whatever the body: a call that changes something at the provider acts on the first
  item of the listing, and none is made when the listing is empty.
\<close>

lemma mutations_on_first_item:
  assumes "endpoint = pause_subscription \<or> endpoint = cancel_subscription
           \<or> endpoint = change_plan"
  shows "(\<forall>m \<in> set (snd (endpoint (Some c) code body)). mutation m \<longrightarrow>
            (\<exists>sub rest. active_listing c code = Inr (sub # rest)
                        \<and> call_subscription m = Some (sub_id sub)))
       \<and> (active_listing c code = Inr [] \<longrightarrow>
            \<not> list_ex mutation (snd (endpoint (Some c) code body)))"
  using assms pause_targets [of c code body] cancel_targets [of c code body]
    change_plan_targets [of c code body]
  by (auto simp: active_listing_def active_params_def)

text \<open>
  C9. Pause, cancel and change-plan each read their argument from the request and then
  look the subscription up by listing the subscriptions of \<open>code-<account code>\<close> with
  \<open>state=active\<close> and \<open>limit=1\<close>. When the listing is empty the answer is 404 with
  \<open>success: false\<close> and the listing is the only call; when it is not, the one further
  call acts on the first item (pause, cancel or terminate, update), and the answer is
  200 when the provider returns; when the listing fails, no further call is made. A
  request whose argument cannot be read (the endpoint raises, or answers 422 for a
  missing plan code) makes no call at all. Whatever the request, a call that changes
  something acts on the first item of the listing, and none is made when it is empty.
\<close>

theorem mutations_target_active_subscription:
  "((pause_cycles body = Inl e \<longrightarrow> pause_subscription (Some c) code body = (Inl (Py e), []))
    \<and> (pause_cycles body = Inr n \<and> active_listing c code = Inr [] \<longrightarrow>
         pause_subscription (Some c) code body = (Inr nothing_active, [lookup_call code]))
    \<and> (pause_cycles body = Inr n \<and> active_listing c code = Inr (sub # rest) \<longrightarrow>
         snd (pause_subscription (Some c) code body)
           = [lookup_call code,
              PauseSubscription (sub_id sub) (JDict [(''remaining_pause_cycles'', JInt n)])]
         \<and> (sdk_pause_subscription c (sub_id sub) (JDict [(''remaining_pause_cycles'', JInt n)])
              = Inr updated \<longrightarrow>
              status (flask (fst (pause_subscription (Some c) code body))) = 200))
    \<and> (pause_cycles body = Inr n \<and> active_listing c code = Inl x \<longrightarrow>
         snd (pause_subscription (Some c) code body) = [lookup_call code]))
   \<and> ((cancel_flag body = Inl e \<longrightarrow> cancel_subscription (Some c) code body = (Inl (Py e), []))
    \<and> (cancel_flag body = Inr flag \<and> active_listing c code = Inr [] \<longrightarrow>
         cancel_subscription (Some c) code body = (Inr nothing_active, [lookup_call code]))
    \<and> (cancel_flag body = Inr flag \<and> active_listing c code = Inr (sub # rest) \<longrightarrow>
         snd (cancel_subscription (Some c) code body)
           = [lookup_call code,
              if truthy flag then CancelSubscription (sub_id sub)
              else TerminateSubscription (sub_id sub) [(''refund'', JStr ''none'')]]
         \<and> ((if truthy flag then sdk_cancel_subscription c (sub_id sub)
              else sdk_terminate_subscription c (sub_id sub) [(''refund'', JStr ''none'')])
              = Inr updated \<longrightarrow>
              status (flask (fst (cancel_subscription (Some c) code body))) = 200))
    \<and> (cancel_flag body = Inr flag \<and> active_listing c code = Inl x \<longrightarrow>
         snd (cancel_subscription (Some c) code body) = [lookup_call code]))
   \<and> ((new_plan_code body = Inl e \<longrightarrow> change_plan (Some c) code body = (Inl (Py e), []))
    \<and> (new_plan_code body = Inr p \<and> \<not> truthy p \<longrightarrow>
         snd (change_plan (Some c) code body) = []
         \<and> status (flask (fst (change_plan (Some c) code body))) = 422)
    \<and> (new_plan_code body = Inr p \<and> truthy p \<and> active_listing c code = Inr [] \<longrightarrow>
         change_plan (Some c) code body = (Inr nothing_active, [lookup_call code]))
    \<and> (new_plan_code body = Inr p \<and> truthy p \<and> active_listing c code = Inr (sub # rest) \<longrightarrow>
         snd (change_plan (Some c) code body)
           = [lookup_call code, UpdateSubscription (sub_id sub) (JDict [(''plan_code'', p)])]
         \<and> (sdk_update_subscription c (sub_id sub) (JDict [(''plan_code'', p)]) = Inr updated \<longrightarrow>
              status (flask (fst (change_plan (Some c) code body))) = 200))
    \<and> (new_plan_code body = Inr p \<and> truthy p \<and> active_listing c code = Inl x \<longrightarrow>
         snd (change_plan (Some c) code body) = [lookup_call code]))
   \<and> (\<forall>endpoint \<in> {pause_subscription, cancel_subscription, change_plan}.
        (\<forall>m \<in> set (snd (endpoint (Some c) code body)). mutation m \<longrightarrow>
           (\<exists>s r. active_listing c code = Inr (s # r) \<and> call_subscription m = Some (sub_id s)))
        \<and> (active_listing c code = Inr [] \<longrightarrow>
             \<not> list_ex mutation (snd (endpoint (Some c) code body))))"
proof -
  have on_first: "\<forall>endpoint \<in> {pause_subscription, cancel_subscription, change_plan}.
        (\<forall>m \<in> set (snd (endpoint (Some c) code body)). mutation m \<longrightarrow>
           (\<exists>s r. active_listing c code = Inr (s # r) \<and> call_subscription m = Some (sub_id s)))
        \<and> (active_listing c code = Inr [] \<longrightarrow>
             \<not> list_ex mutation (snd (endpoint (Some c) code body)))"
    using mutations_on_first_item [of _ c code body] by blast
  show ?thesis
    by (rule conjI [OF pause_behaviour conjI [OF cancel_behaviour
          conjI [OF change_plan_behaviour on_first]]])
qed

theorem mutations_target_active_subscription_witness:
  "pause_cycles JNull = Inr 1
   \<and> active_listing declining_client ''jane'' = Inr []
   \<and> pause_subscription (Some declining_client) ''jane'' JNull
       = (Inr nothing_active, [lookup_call ''jane''])
   \<and> pause_cycles (JDict [(''remaining_pause_cycles'', JStr ''soon'')]) = Inl ValueError
   \<and> pause_subscription (Some active_client) ''jane''
        (JDict [(''remaining_pause_cycles'', JStr ''soon'')]) = (Inl (Py ValueError), [])
   \<and> cancel_flag (JDict [(''at_end_of_billing_period'', JBool False)]) = Inr (JBool False)
   \<and> active_listing active_client ''jane'' = Inr [example_subscription]
   \<and> snd (cancel_subscription (Some active_client) ''jane''
             (JDict [(''at_end_of_billing_period'', JBool False)]))
       = [lookup_call ''jane'',
          TerminateSubscription (sub_id example_subscription) [(''refund'', JStr ''none'')]]
   \<and> new_plan_code (JDict [(''plan_code'', JStr '' premium-monthly '')])
       = Inr (JStr ''premium-monthly'')
   \<and> snd (change_plan (Some active_client) ''jane''
             (JDict [(''plan_code'', JStr '' premium-monthly '')]))
       = [lookup_call ''jane'',
          UpdateSubscription (sub_id example_subscription)
            (JDict [(''plan_code'', JStr ''premium-monthly'')])]
   \<and> status (flask (fst (change_plan (Some active_client) ''jane''
                 (JDict [(''plan_code'', JStr '' premium-monthly '')])))) = 200"
proof -
  let ?soon = "JDict [(''remaining_pause_cycles'', JStr ''soon'')]"
  let ?stop = "JDict [(''at_end_of_billing_period'', JBool False)]"
  let ?plan = "JDict [(''plan_code'', JStr '' premium-monthly '')]"
  have cycles: "pause_cycles JNull = Inr 1"
    by code_simp
  have empty: "active_listing declining_client ''jane'' = Inr []"
    by code_simp
  have unread: "pause_cycles ?soon = Inl ValueError"
    by code_simp
  have flag: "cancel_flag ?stop = Inr (JBool False)"
    by code_simp
  have listed: "active_listing active_client ''jane'' = Inr [example_subscription]"
    by code_simp
  have plan: "new_plan_code ?plan = Inr (JStr ''premium-monthly'')"
    by code_simp
  have changed: "sdk_update_subscription active_client (sub_id example_subscription)
                   (JDict [(''plan_code'', JStr ''premium-monthly'')]) = Inr example_subscription"
    by code_simp
  note at_empty = mutations_target_active_subscription
    [where body = JNull and c = declining_client and code = "''jane''" and n = 1]
  have a: "pause_subscription (Some declining_client) ''jane'' JNull
             = (Inr nothing_active, [lookup_call ''jane''])"
    by (rule mp [OF at_empty [THEN conjunct1, THEN conjunct2, THEN conjunct1]])
       (simp add: cycles empty)
  note at_unread = mutations_target_active_subscription
    [where body = ?soon and c = active_client and code = "''jane''" and e = ValueError]
  have b: "pause_subscription (Some active_client) ''jane'' ?soon = (Inl (Py ValueError), [])"
    by (rule mp [OF at_unread [THEN conjunct1, THEN conjunct1]]) (simp add: unread)
  note at_stop = mutations_target_active_subscription
    [where body = ?stop and c = active_client and code = "''jane''"
       and flag = "JBool False" and sub = example_subscription and rest = "[]"]
  have "snd (cancel_subscription (Some active_client) ''jane'' ?stop)
          = [lookup_call ''jane'',
             if truthy (JBool False) then CancelSubscription (sub_id example_subscription)
             else TerminateSubscription (sub_id example_subscription)
                    [(''refund'', JStr ''none'')]]"
    by (rule conjunct1
          [OF mp [OF at_stop [THEN conjunct2, THEN conjunct1, THEN conjunct2, THEN conjunct2,
                              THEN conjunct1]]])
       (simp add: flag listed)
  then have c: "snd (cancel_subscription (Some active_client) ''jane'' ?stop)
                  = [lookup_call ''jane'',
                     TerminateSubscription (sub_id example_subscription)
                       [(''refund'', JStr ''none'')]]"
    by simp
  note at_plan = mutations_target_active_subscription
    [where body = ?plan and c = active_client and code = "''jane''"
       and p = "JStr ''premium-monthly''" and sub = example_subscription
       and rest = "[]" and updated = example_subscription]
  have both: "snd (change_plan (Some active_client) ''jane'' ?plan)
             = [lookup_call ''jane'',
                UpdateSubscription (sub_id example_subscription)
                  (JDict [(''plan_code'', JStr ''premium-monthly'')])]
           \<and> (sdk_update_subscription active_client (sub_id example_subscription)
                  (JDict [(''plan_code'', JStr ''premium-monthly'')]) = Inr example_subscription
                \<longrightarrow> status (flask (fst (change_plan (Some active_client) ''jane'' ?plan))) = 200)"
    by (rule mp [OF at_plan [THEN conjunct2, THEN conjunct2, THEN conjunct1, THEN conjunct2,
                             THEN conjunct2, THEN conjunct2, THEN conjunct1]])
       (simp add: plan listed)
  have d: "status (flask (fst (change_plan (Some active_client) ''jane'' ?plan))) = 200"
    by (rule mp [OF both [THEN conjunct2] changed])
  show ?thesis
    by (intro conjI cycles empty a unread b flag listed c plan both [THEN conjunct1] d)
qed

end
